theory Spec2Isabelle
  imports Complex_Main
begin

section \<open>JSON values and their accessors\<close>

text \<open>
  The program handles every item, command and monitoring message as an
  \<^verbatim>\<open>nlohmann::json\<close> value. The library is an external collaborator; the part
  of it that the program uses is modelled here. An object is kept as an association
  list with unique keys. An integer of a JSON value is an unbounded \<open>int\<close> here (the
  library holds it in 64 bits); reading it into a C++ \<^verbatim>\<open>int\<close> narrows it.
\<close>

datatype json =
    JNull
  | JBool bool
  | JInt int
  | JFloat real
  | JString string
  | JArray "json list"
  | JObject "(string \<times> json) list"

text \<open>
  What can stop a function before its end: a C++ exception derived from
  \<^verbatim>\<open>std::exception\<close>, carrying its \<^verbatim>\<open>what()\<close> text, or behaviour that C++ or
  the library leaves undefined (a null socket pointer, a missing key read through a
  \<^verbatim>\<open>const json\<close>).
\<close>

datatype failure =
    Exception string
  | Undefined_Behaviour string

fun type_name :: "json \<Rightarrow> string" where
  "type_name JNull = ''null''"
| "type_name (JBool b) = ''boolean''"
| "type_name (JInt n) = ''number''"
| "type_name (JFloat r) = ''number''"
| "type_name (JString s) = ''string''"
| "type_name (JArray xs) = ''array''"
| "type_name (JObject kvs) = ''object''"

text \<open>\<^verbatim>\<open>j.get<std::string>()\<close>: the string of a JSON string, a type error otherwise.\<close>

fun get_string :: "json \<Rightarrow> failure + string" where
  "get_string (JString s) = Inr s"
| "get_string j =
     Inl (Exception (''[json.exception.type_error.302] type must be string, but is '' @ type_name j))"

text \<open>
  The conversion of an integer to the 32-bit C++ \<^verbatim>\<open>int\<close>: the value modulo
  \<open>2^32\<close>, taken between \<open>-2^31\<close> and \<open>2^31 - 1\<close>.
\<close>

definition narrow_int :: "int \<Rightarrow> int" where
  "narrow_int n = (n + 2147483648) mod 4294967296 - 2147483648"

text \<open>
  \<^verbatim>\<open>j.get<int>()\<close>: numbers and booleans convert, everything else is a type
  error. An integer is narrowed to 32 bits. A float is truncated towards zero, and
  the conversion is undefined when the truncated value is no \<^verbatim>\<open>int\<close>.
\<close>

fun get_int :: "json \<Rightarrow> failure + int" where
  "get_int (JInt n) = Inr (narrow_int n)"
| "get_int (JBool b) = Inr (if b then 1 else 0)"
| "get_int (JFloat r) =
     (let truncated = (if 0 \<le> r then \<lfloor>r\<rfloor> else \<lceil>r\<rceil>) in
      if - 2147483648 \<le> truncated \<and> truncated \<le> 2147483647 then Inr truncated
      else Inl (Undefined_Behaviour ''conversion of a floating-point value out of the range of int''))"
| "get_int j =
     Inl (Exception (''[json.exception.type_error.302] type must be number, but is '' @ type_name j))"

text \<open>
  \<^verbatim>\<open>j[key]\<close> on a \<^verbatim>\<open>const json\<close>: the member of an object; a missing key is
  undefined behaviour, a value that is not an object is a type error.
\<close>

fun subscript :: "json \<Rightarrow> string \<Rightarrow> failure + json" where
  "subscript (JObject kvs) k =
     (case map_of kvs k of
        Some v \<Rightarrow> Inr v
      | None \<Rightarrow> Inl (Undefined_Behaviour (''operator[] const: key not found: '' @ k)))"
| "subscript j k =
     Inl (Exception (''[json.exception.type_error.305] cannot use operator[] with a string argument with ''
            @ type_name j))"

text \<open>
  \<^verbatim>\<open>obj[key] = v\<close> on a local value that starts as \<^verbatim>\<open>null\<close> and is only ever
  written through string keys: the value is an object under construction, kept as its
  member list. An existing key is overwritten in place, a new key is added.
\<close>

fun assign :: "(string \<times> 'v) list \<Rightarrow> string \<Rightarrow> 'v \<Rightarrow> (string \<times> 'v) list" where
  "assign [] k v = [(k, v)]"
| "assign ((k', v') # kvs) k v =
     (if k' = k then (k, v) # kvs else (k', v') # assign kvs k v)"

text \<open>
  \<^verbatim>\<open>msg[k1][k2] = v\<close> on such a value: the member \<open>k1\<close> is itself an object
  under construction, created empty when it is missing.
\<close>

fun assign2 ::
  "(string \<times> (string \<times> json) list) list \<Rightarrow> string \<Rightarrow> string \<Rightarrow> json
    \<Rightarrow> (string \<times> (string \<times> json) list) list" where
  "assign2 [] k1 k2 v = [(k1, assign [] k2 v)]"
| "assign2 ((k', inner) # msg) k1 k2 v =
     (if k' = k1 then (k', assign inner k2 v) # msg else (k', inner) # assign2 msg k1 k2 v)"

definition object2 :: "(string \<times> (string \<times> json) list) list \<Rightarrow> json" where
  "object2 msg = JObject (map (\<lambda>(k, inner). (k, JObject inner)) msg)"

section \<open>Worker1\<close>

text \<open>
  \<^verbatim>\<open>Worker1::processData(data, priority)\<close>. The dataflow type is read from the
  supervisor. The Avro decoding of the binary branch (building the input stream,
  decoding a datum of the compiled schema, reading field \<open>name\<close> when the datum is
  a record) belongs to the Avro library and is the parameter \<open>decode_name\<close>: it
  fails, or yields the name, or yields nothing when the datum is no record. The
  simulated processing time and the console output do not reach the result.
\<close>

definition processData ::
  "(string \<Rightarrow> failure + string option) \<Rightarrow> string \<Rightarrow> json \<Rightarrow> int \<Rightarrow> failure + json" where
  "processData decode_name dataflow_type data priority =
     (let result = [] in
      if dataflow_type = ''binary'' then
        (case get_string data of
           Inl e \<Rightarrow> Inl e
         | Inr binary_data \<Rightarrow>
             (case decode_name binary_data of
                Inl e \<Rightarrow> Inl e
              | Inr None \<Rightarrow> Inr (JObject (assign result ''priority'' (JInt priority)))
              | Inr (Some name) \<Rightarrow>
                  Inr (JObject (assign (assign result ''name'' (JString name))
                                  ''priority'' (JInt priority)))))
      else if dataflow_type = ''filename'' then
        (case get_string data of
           Inl e \<Rightarrow> Inl e
         | Inr filename \<Rightarrow>
             Inr (JObject (assign (assign result ''filename'' (JString filename))
                             ''priority'' (JInt priority))))
      else if dataflow_type = ''string'' then
        (case get_string data of
           Inl e \<Rightarrow> Inl e
         | Inr str_data \<Rightarrow>
             Inr (JObject (assign (assign result ''data'' (JString str_data))
                             ''priority'' (JInt priority))))
      else Inr (JObject (assign result ''priority'' (JInt priority))))"

text \<open>Reading a member of a JSON value: present only in an object that has the key.\<close>

fun field_of :: "json \<Rightarrow> string \<Rightarrow> json option" where
  "field_of (JObject kvs) k = map_of kvs k"
| "field_of j k = None"

section \<open>Queues and worker managers\<close>

text \<open>
  Modelled from the spec: the queue class behind \<^verbatim>\<open>getLowPriorityQueue()\<close> and
  its three siblings is not among the sources. It is a FIFO: \<^verbatim>\<open>push\<close> adds at the
  back, \<^verbatim>\<open>front\<close> reads and \<^verbatim>\<open>pop\<close> removes at the head, \<^verbatim>\<open>size\<close> counts.
  The dispatcher drains by catching \<^verbatim>\<open>std::exception\<close>, so reading or popping an
  empty queue raises one.
\<close>

definition queue_push :: "'a list \<Rightarrow> 'a \<Rightarrow> 'a list" where
  "queue_push q x = q @ [x]"

text \<open>Modelled from the spec: \<^verbatim>\<open>size()\<close> of the missing queue class, the number of items.\<close>

definition queue_size :: "'a list \<Rightarrow> nat" where
  "queue_size q = length q"

text \<open>
  Modelled from the spec: \<^verbatim>\<open>front()\<close> of the missing queue class, the item at the
  head; it raises on an empty queue.
\<close>

fun queue_front :: "'a list \<Rightarrow> failure + 'a" where
  "queue_front [] = Inl (Exception ''empty queue'')"
| "queue_front (x # q) = Inr x"

text \<open>
  Modelled from the spec: \<^verbatim>\<open>pop()\<close> of the missing queue class, which removes the
  item at the head; it raises on an empty queue.
\<close>

fun queue_pop :: "'a list \<Rightarrow> failure + 'a list" where
  "queue_pop [] = Inl (Exception ''empty queue'')"
| "queue_pop (x # q) = Inr q"

text \<open>
  Modelled from the spec: the class \<^verbatim>\<open>WorkerManager\<close> is not among the sources.
  The fields are named after the getters the supervisor calls. A manager holds its
  configuration, its four queues and the two flags mirrored from the supervisor; the
  last three fields record what the supervisor asked of it: each \<^verbatim>\<open>stop(fast)\<close>,
  each configuration envelope forwarded to the workers, each heartbeat target.
\<close>

record manager =
  get_globalname :: string
  get_result_socket_type :: string
  get_result_dataflow_type :: string
  get_result_lp_socket :: string
  get_result_hp_socket :: string
  getLowPriorityQueue :: "json list"
  getHighPriorityQueue :: "json list"
  getResultLpQueue :: "json list"
  getResultHpQueue :: "json list"
  manager_processdata :: int
  manager_stopdata :: bool
  stop_calls :: "bool list"
  worker_configurations :: "json list"
  heartbeat_targets :: "string list"

text \<open>
  Modelled from the spec: \<^verbatim>\<open>WorkerManager::set_processdata\<close>, missing from the
  sources, sets the manager's copy of the processing flag.
\<close>

definition set_processdata :: "int \<Rightarrow> manager \<Rightarrow> manager" where
  "set_processdata v m = m\<lparr>manager_processdata := v\<rparr>"

text \<open>
  Modelled from the spec: \<^verbatim>\<open>WorkerManager::set_stopdata\<close>, missing from the sources,
  sets the manager's copy of the ingress gate.
\<close>

definition set_stopdata :: "bool \<Rightarrow> manager \<Rightarrow> manager" where
  "set_stopdata b m = m\<lparr>manager_stopdata := b\<rparr>"

text \<open>
  Modelled from the spec: \<^verbatim>\<open>WorkerManager::clean_queue\<close>, missing from the sources,
  clears all four queues.
\<close>

definition clean_queue :: "manager \<Rightarrow> manager" where
  "clean_queue m =
     m\<lparr>getLowPriorityQueue := [], getHighPriorityQueue := [],
       getResultLpQueue := [], getResultHpQueue := []\<rparr>"

text \<open>
  Modelled from the spec: \<^verbatim>\<open>WorkerManager::stop\<close>, missing from the sources, signals
  the worker tasks to exit; the manager records the request.
\<close>

definition stop :: "bool \<Rightarrow> manager \<Rightarrow> manager" where
  "stop fast m = m\<lparr>stop_calls := stop_calls m @ [fast]\<rparr>"

text \<open>
  Modelled from the spec: \<^verbatim>\<open>WorkerManager::configworkers\<close>, missing from the
  sources, forwards the configuration envelope to every worker; the manager records it.
\<close>

definition configworkers :: "json \<Rightarrow> manager \<Rightarrow> manager" where
  "configworkers command m = m\<lparr>worker_configurations := worker_configurations m @ [command]\<rparr>"

text \<open>
  Modelled from the spec: \<^verbatim>\<open>sendto\<close> of the manager's monitoring thread, missing
  from the sources, emits a heartbeat to the given target; the manager records it.
\<close>

definition sendto :: "string \<Rightarrow> manager \<Rightarrow> manager" where
  "sendto pidsource m = m\<lparr>heartbeat_targets := heartbeat_targets m @ [pidsource]\<rparr>"

section \<open>The supervisor\<close>

text \<open>
  A frame on a socket: the bytes of a string, or the bytes of \<^verbatim>\<open>dump()\<close> of a JSON
  value (the serialisation itself belongs to the library).
\<close>

datatype frame = Text string | Dump json

text \<open>
  A result socket keeps the frames sent on it. The transport is external: a send
  either succeeds or raises \<^verbatim>\<open>zmq::error_t\<close>, which \<open>zmq_error\<close> decides.
  The slots of \<^verbatim>\<open>socket_lp_result\<close> and \<^verbatim>\<open>socket_hp_result\<close> are pointers,
  null where no socket was created.
\<close>

record result_socket =
  sent :: "frame list"
  zmq_error :: "string option"

datatype log_level = System | Warning | Error

text \<open>
  The supervisor's members. \<open>logger\<close> is the list of entries written to the log,
  \<open>socket_monitoring\<close> the frames sent on the monitoring socket (sends on it
  succeed), \<open>clock\<close> the reading of \<^verbatim>\<open>time(nullptr)\<close> in seconds. Output on
  \<^verbatim>\<open>std::cout\<close> and \<^verbatim>\<open>std::cerr\<close> is left out.
\<close>

record supervisor =
  name :: string
  fullname :: string
  globalname :: string
  dataflowtype :: string
  status :: string
  continueall :: bool
  stopdata :: bool
  processdata :: int
  manager_workers :: "manager list"
  socket_lp_result :: "result_socket option list"
  socket_hp_result :: "result_socket option list"
  socket_monitoring :: "frame list"
  logger :: "(log_level \<times> string) list"
  clock :: int

definition logger_system :: "string \<Rightarrow> supervisor \<Rightarrow> supervisor" where
  "logger_system msg s = s\<lparr>logger := logger s @ [(System, msg)]\<rparr>"

definition logger_warning :: "string \<Rightarrow> supervisor \<Rightarrow> supervisor" where
  "logger_warning msg s = s\<lparr>logger := logger s @ [(Warning, msg)]\<rparr>"

definition logger_error :: "string \<Rightarrow> supervisor \<Rightarrow> supervisor" where
  "logger_error msg s = s\<lparr>logger := logger s @ [(Error, msg)]\<rparr>"

subsection \<open>Monitoring emissions\<close>

text \<open>
  The envelope the three emitters build, assignment by assignment, from a null value;
  \<open>ty\<close> and \<open>subtype\<close> are the two constants in which the emitters differ.
\<close>

definition monitoring_message ::
  "int \<Rightarrow> string \<Rightarrow> int \<Rightarrow> int \<Rightarrow> string \<Rightarrow> string \<Rightarrow> int \<Rightarrow> string \<Rightarrow> json" where
  "monitoring_message ty subtype now level message pidsource code priority =
     (let msg = [];
          msg = assign2 msg ''header'' ''type'' (JInt ty);
          msg = assign2 msg ''header'' ''subtype'' (JString subtype);
          msg = assign2 msg ''header'' ''time'' (JFloat (real_of_int now));
          msg = assign2 msg ''header'' ''pidsource'' (JString pidsource);
          msg = assign2 msg ''header'' ''pidtarget'' (JString ''*'');
          msg = assign2 msg ''header'' ''priority'' (JString priority);
          msg = assign2 msg ''body'' ''level'' (JInt level);
          msg = assign2 msg ''body'' ''code'' (JInt code);
          msg = assign2 msg ''body'' ''message'' (JString message)
      in object2 msg)"

definition send_alarm :: "int \<Rightarrow> string \<Rightarrow> string \<Rightarrow> int \<Rightarrow> string \<Rightarrow> supervisor \<Rightarrow> supervisor" where
  "send_alarm level message pidsource code priority s =
     s\<lparr>socket_monitoring := socket_monitoring s @
         [Dump (monitoring_message 2 ''alarm'' (clock s) level message pidsource code priority)]\<rparr>"

definition send_log :: "int \<Rightarrow> string \<Rightarrow> string \<Rightarrow> int \<Rightarrow> string \<Rightarrow> supervisor \<Rightarrow> supervisor" where
  "send_log level message pidsource code priority s =
     s\<lparr>socket_monitoring := socket_monitoring s @
         [Dump (monitoring_message 4 ''log'' (clock s) level message pidsource code priority)]\<rparr>"

definition send_info :: "int \<Rightarrow> string \<Rightarrow> string \<Rightarrow> int \<Rightarrow> string \<Rightarrow> supervisor \<Rightarrow> supervisor" where
  "send_info level message pidsource code priority s =
     s\<lparr>socket_monitoring := socket_monitoring s @
         [Dump (monitoring_message 5 ''info'' (clock s) level message pidsource code priority)]\<rparr>"

subsection \<open>Commands\<close>

text \<open>\<^verbatim>\<open>std::to_string\<close> of a queue size: its decimal digits.\<close>

fun to_string :: "nat \<Rightarrow> string" where
  "to_string n =
     (if n < 10 then [char_of (48 + n)]
      else to_string (n div 10) @ [char_of (48 + n mod 10)])"

declare to_string.simps [simp del]

definition command_startdata :: "supervisor \<Rightarrow> supervisor" where
  "command_startdata s =
     s\<lparr>stopdata := False, manager_workers := map (set_stopdata False) (manager_workers s)\<rparr>"

definition command_stopdata :: "supervisor \<Rightarrow> supervisor" where
  "command_stopdata s =
     s\<lparr>stopdata := True, manager_workers := map (set_stopdata True) (manager_workers s)\<rparr>"

definition command_startprocessing :: "supervisor \<Rightarrow> supervisor" where
  "command_startprocessing s =
     (let s = s\<lparr>status := ''Processing''\<rparr>;
          s = send_info 1 (status s) (fullname s) 1 ''Low'' s
      in s\<lparr>manager_workers := map (set_processdata 1) (manager_workers s)\<rparr>)"

definition command_stopprocessing :: "supervisor \<Rightarrow> supervisor" where
  "command_stopprocessing s =
     (let s = s\<lparr>status := ''Waiting''\<rparr>;
          s = send_info 1 (status s) (fullname s) 1 ''Low'' s
      in s\<lparr>manager_workers := map (set_processdata 0) (manager_workers s)\<rparr>)"

definition command_start :: "supervisor \<Rightarrow> supervisor" where
  "command_start s = command_startdata (command_startprocessing s)"

definition command_stop :: "supervisor \<Rightarrow> supervisor" where
  "command_stop s = command_stopprocessing (command_stopdata s)"

text \<open>
  \<^verbatim>\<open>stop_all(fast)\<close>. The pause of 100 ms between \<^verbatim>\<open>command_stop()\<close> and the
  stopping of the managers changes nothing that this function reads.
\<close>

definition stop_all :: "bool \<Rightarrow> supervisor \<Rightarrow> supervisor" where
  "stop_all fast s =
     (let s = logger_system ''Stopping all workers and managers...'' s;
          s = command_stop s;
          s = s\<lparr>manager_workers := map (stop fast) (manager_workers s)\<rparr>;
          s = s\<lparr>continueall := False\<rparr>
      in logger_system ''All Supervisor workers and managers and internal threads terminated.'' s)"

definition command_shutdown :: "supervisor \<Rightarrow> supervisor" where
  "command_shutdown s = stop_all False (s\<lparr>status := ''Shutdown''\<rparr>)"

text \<open>
  The body of the loop of \<^verbatim>\<open>command_reset\<close> for one manager: the manager after
  \<^verbatim>\<open>clean_queue()\<close> and the two log entries written around it.
\<close>

definition reset_manager :: "manager \<Rightarrow> manager \<times> (log_level \<times> string) list" where
  "reset_manager manager =
     (let cleaned = clean_queue manager in
      (cleaned,
       [(System, ''Trying to reset '' @ get_globalname manager @ ''...''),
        (System, ''Queues of manager '' @ get_globalname cleaned @ '' have size ''
           @ to_string (queue_size (getLowPriorityQueue cleaned)) @ '' ''
           @ to_string (queue_size (getHighPriorityQueue cleaned)) @ '' ''
           @ to_string (queue_size (getResultLpQueue cleaned)) @ '' ''
           @ to_string (queue_size (getResultHpQueue cleaned)))]))"

definition command_reset :: "supervisor \<Rightarrow> supervisor" where
  "command_reset s =
     (if status s = ''Processing'' \<or> status s = ''Waiting'' then
        (let s = command_stop s;
             done = map reset_manager (manager_workers s);
             s = s\<lparr>manager_workers := map fst done, logger := logger s @ concat (map snd done)\<rparr>;
             s = s\<lparr>status := ''Waiting''\<rparr>
         in send_info 1 (status s) (fullname s) 1 ''Low'' s)
      else s)"

subsection \<open>The cleaned shutdown\<close>

text \<open>
  \<^verbatim>\<open>command_cleanedshutdown\<close> polls the queue sizes and sleeps 200 ms between two
  polls. Nothing in the function itself changes a queue: the workers and the result
  dispatcher do, on their own threads, while the function sleeps. What they do to a
  manager during one sleep is the parameter \<open>others\<close>, which may look at the
  whole state.
\<close>

definition sleep_for :: "(supervisor \<Rightarrow> manager \<Rightarrow> manager) \<Rightarrow> supervisor \<Rightarrow> supervisor" where
  "sleep_for others s = s\<lparr>manager_workers := map (others s) (manager_workers s)\<rparr>"

definition data_queues_message :: "manager \<Rightarrow> string" where
  "data_queues_message manager =
     ''Queues data of manager '' @ get_globalname manager @ '' have size ''
       @ to_string (queue_size (getLowPriorityQueue manager)) @ '' ''
       @ to_string (queue_size (getHighPriorityQueue manager))"

definition result_queues_message :: "manager \<Rightarrow> string" where
  "result_queues_message manager =
     ''Queues result of manager '' @ get_globalname manager @ '' have size ''
       @ to_string (queue_size (getResultLpQueue manager)) @ '' ''
       @ to_string (queue_size (getResultHpQueue manager))"

text \<open>The first inner loop, on the two input queues of manager \<open>i\<close>.\<close>

partial_function (option) wait_data_queues ::
  "(supervisor \<Rightarrow> manager \<Rightarrow> manager) \<Rightarrow> nat \<Rightarrow> supervisor \<Rightarrow> supervisor option" where
  "wait_data_queues others i s =
     (if queue_size (getLowPriorityQueue (manager_workers s ! i)) \<noteq> 0
         \<or> queue_size (getHighPriorityQueue (manager_workers s ! i)) \<noteq> 0
      then wait_data_queues others i
             (sleep_for others (logger_system (data_queues_message (manager_workers s ! i)) s))
      else Some s)"

text \<open>The second inner loop, on the two result queues of manager \<open>i\<close>.\<close>

partial_function (option) wait_result_queues ::
  "(supervisor \<Rightarrow> manager \<Rightarrow> manager) \<Rightarrow> nat \<Rightarrow> supervisor \<Rightarrow> supervisor option" where
  "wait_result_queues others i s =
     (if queue_size (getResultLpQueue (manager_workers s ! i)) \<noteq> 0
         \<or> queue_size (getResultHpQueue (manager_workers s ! i)) \<noteq> 0
      then wait_result_queues others i
             (sleep_for others (logger_system (result_queues_message (manager_workers s ! i)) s))
      else Some s)"

text \<open>
  The loop over the managers, by position in \<^verbatim>\<open>manager_workers\<close>. No manager is
  created or destroyed while it runs, so the positions stay valid.
\<close>

fun wait_managers ::
  "(supervisor \<Rightarrow> manager \<Rightarrow> manager) \<Rightarrow> nat list \<Rightarrow> supervisor \<Rightarrow> supervisor option" where
  "wait_managers others [] s = Some s"
| "wait_managers others (i # rest) s =
     (case wait_data_queues others i
             (logger_system (''Trying to stop '' @ get_globalname (manager_workers s ! i) @ ''...'') s) of
        None \<Rightarrow> None
      | Some s \<Rightarrow>
          (case wait_result_queues others i s of
             None \<Rightarrow> None
           | Some s \<Rightarrow> wait_managers others rest s))"

text \<open>
  The first part of \<^verbatim>\<open>command_cleanedshutdown\<close>, up to the end of the
  \<^verbatim>\<open>if\<close>/\<^verbatim>\<open>else\<close>: the state in which the function goes on to write
  \<^verbatim>\<open>status = "Shutdown"\<close>, when the polling ends.
\<close>

definition cleanedshutdown_drain ::
  "(supervisor \<Rightarrow> manager \<Rightarrow> manager) \<Rightarrow> supervisor \<Rightarrow> supervisor option" where
  "cleanedshutdown_drain others s =
     (if status s = ''Processing'' then
        (let s = s\<lparr>status := ''EndingProcessing''\<rparr>;
             s = command_stopdata s
         in wait_managers others [0 ..< length (manager_workers s)] s)
      else
        Some (logger_warning
                ''WARNING! Not in Processing state for a cleaned shutdown. Force the shutdown.'' s))"

definition command_cleanedshutdown ::
  "(supervisor \<Rightarrow> manager \<Rightarrow> manager) \<Rightarrow> supervisor \<Rightarrow> supervisor option" where
  "command_cleanedshutdown others s =
     (case cleanedshutdown_drain others s of
        None \<Rightarrow> None
      | Some s \<Rightarrow> Some (stop_all False (s\<lparr>status := ''Shutdown''\<rparr>)))"

subsection \<open>The command handler\<close>

text \<open>\<^verbatim>\<open>command["header"][k]\<close> on the received envelope.\<close>

definition header_field :: "json \<Rightarrow> string \<Rightarrow> failure + json" where
  "header_field command k =
     (case subscript command ''header'' of
        Inl e \<Rightarrow> Inl e
      | Inr header \<Rightarrow> subscript header k)"

definition header_int :: "json \<Rightarrow> string \<Rightarrow> failure + int" where
  "header_int command k =
     (case header_field command k of Inl e \<Rightarrow> Inl e | Inr v \<Rightarrow> get_int v)"

definition header_string :: "json \<Rightarrow> string \<Rightarrow> failure + string" where
  "header_string command k =
     (case header_field command k of Inl e \<Rightarrow> Inl e | Inr v \<Rightarrow> get_string v)"

text \<open>
  The \<^verbatim>\<open>if\<close>/\<^verbatim>\<open>else if\<close> chain of \<^verbatim>\<open>process_command\<close>, once the four header
  fields are read. Only the cleaned shutdown can fail to return.
\<close>

definition dispatch_command ::
  "(supervisor \<Rightarrow> manager \<Rightarrow> manager) \<Rightarrow> json \<Rightarrow> int \<Rightarrow> string \<Rightarrow> string \<Rightarrow> string
    \<Rightarrow> supervisor \<Rightarrow> supervisor option" where
  "dispatch_command others command type_value subtype_value pidtarget pidsource s =
     (if type_value = 0 then
        (if pidtarget = name s \<or> pidtarget = ''all'' \<or> pidtarget = ''*'' then
           (if subtype_value = ''shutdown'' then Some (command_shutdown s)
            else if subtype_value = ''cleanedshutdown'' then command_cleanedshutdown others s
            else if subtype_value = ''getstatus'' then
              Some (s\<lparr>manager_workers := map (sendto pidsource) (manager_workers s)\<rparr>)
            else if subtype_value = ''start'' then Some (command_start s)
            else if subtype_value = ''stop'' then Some (command_stop s)
            else if subtype_value = ''startprocessing'' then Some (command_startprocessing s)
            else if subtype_value = ''stopprocessing'' then Some (command_stopprocessing s)
            else if subtype_value = ''reset'' then Some (command_reset s)
            else if subtype_value = ''stopdata'' then Some (command_stopdata s)
            else if subtype_value = ''startdata'' then Some (command_startdata s)
            else Some s)
         else Some s)
      else if type_value = 3 then
        Some (s\<lparr>manager_workers := map (configworkers command) (manager_workers s)\<rparr>)
      else Some s)"

text \<open>
  The four reads at the head of \<^verbatim>\<open>process_command\<close>, in their order: the
  type, the subtype, the target and the source of the envelope. The first read that
  fails ends the function.
\<close>

definition read_header :: "json \<Rightarrow> failure + int \<times> string \<times> string \<times> string" where
  "read_header command =
     (case header_int command ''type'' of
        Inl e \<Rightarrow> Inl e
      | Inr type_value \<Rightarrow>
     (case header_string command ''subtype'' of
        Inl e \<Rightarrow> Inl e
      | Inr subtype_value \<Rightarrow>
     (case header_string command ''pidtarget'' of
        Inl e \<Rightarrow> Inl e
      | Inr pidtarget \<Rightarrow>
     (case header_string command ''pidsource'' of
        Inl e \<Rightarrow> Inl e
      | Inr pidsource \<Rightarrow> Inr (type_value, subtype_value, pidtarget, pidsource)))))"

text \<open>
  \<^verbatim>\<open>process_command\<close>: \<open>None\<close> when it does not return, \<open>Some (Inl e)\<close> when
  reading the header stops it (nothing has been written by then), \<open>Some (Inr s')\<close>
  when it returns with the state \<open>s'\<close>.
\<close>

definition process_command ::
  "(supervisor \<Rightarrow> manager \<Rightarrow> manager) \<Rightarrow> supervisor \<Rightarrow> json \<Rightarrow> (failure + supervisor) option" where
  "process_command others s command =
     (case read_header command of
        Inl e \<Rightarrow> Some (Inl e)
      | Inr (type_value, subtype_value, pidtarget, pidsource) \<Rightarrow>
          map_option Inr
            (dispatch_command others command type_value subtype_value pidtarget pidsource s))"

subsection \<open>Reading a file of records\<close>

text \<open>
  \<^verbatim>\<open>std::getline\<close> over the content of a file, until it fails: the lines between
  newline characters; a last line without a newline counts when it is not empty.
  \<open>line\<close> holds the characters of the current line read so far, last first.
\<close>

fun getlines :: "string \<Rightarrow> string \<Rightarrow> string list" where
  "getlines line [] = (if line = [] then [] else [rev line])"
| "getlines line (c # cs) =
     (if c = CHR 0x0A then rev line # getlines [] cs else getlines (c # line) cs)"

text \<open>
  The \<^verbatim>\<open>while\<close> loop of \<^verbatim>\<open>open_file\<close> over the lines still to read, with the
  vector and the counter as they stand. An exception of \<^verbatim>\<open>json::parse\<close> leaves the
  loop for the \<^verbatim>\<open>catch\<close> block, where both keep what they hold. The counter \<^verbatim>\<open>size\<close> is a
  C++ \<^verbatim>\<open>int\<close>; it is unbounded here, as an overflow of it is undefined.
\<close>

fun read_lines ::
  "(string \<Rightarrow> failure + json) \<Rightarrow> string list \<Rightarrow> json list \<Rightarrow> int
    \<Rightarrow> json list \<times> int \<times> failure option" where
  "read_lines parse [] data n_read = (data, n_read, None)"
| "read_lines parse (line # rest) data n_read =
     (if line \<noteq> [] then
        (case parse line of
           Inl e \<Rightarrow> (data, n_read, Some e)
         | Inr jsonData \<Rightarrow> read_lines parse rest (data @ [jsonData]) (n_read + 1))
      else read_lines parse rest data n_read)"

fun what :: "failure \<Rightarrow> string" where
  "what (Exception w) = w"
| "what (Undefined_Behaviour w) = w"

text \<open>
  \<^verbatim>\<open>open_file(filename)\<close>. The file system is the parameter \<open>files\<close>: the
  content of a file that can be opened, \<open>None\<close> for one that cannot. The JSON
  parser is the parameter \<open>parse\<close>. The result is the pair \<open>(data, size)\<close>
  and the state, in which only the log may have grown.
\<close>

definition open_file ::
  "(string \<Rightarrow> string option) \<Rightarrow> (string \<Rightarrow> failure + json) \<Rightarrow> string \<Rightarrow> supervisor
    \<Rightarrow> (json list \<times> int) \<times> supervisor" where
  "open_file files parse filename s =
     (case files filename of
        None \<Rightarrow> (([], 0), logger_error (''Unable to open file: '' @ filename) s)
      | Some content \<Rightarrow>
          (case read_lines parse (getlines [] content) [] 0 of
             (data, n_read, None) \<Rightarrow> ((data, n_read), s)
           | (data, n_read, Some e) \<Rightarrow>
               ((data, n_read), logger_error (''Error while reading file: '' @ what e) s)))"

subsection \<open>Ingress listeners\<close>

text \<open>
  A listener is a loop that never ends while \<^verbatim>\<open>continueall\<close> holds, so each is
  modelled by its first \<open>n\<close> iterations. The frames waiting on its socket are
  the list \<open>inbox\<close>; \<^verbatim>\<open>recv\<close> takes the first and blocks when there is none.
  The result is the state and the frames left. The binary listeners let an exception
  of \<^verbatim>\<open>json::parse\<close> escape, which ends them.
\<close>

definition push_lp :: "json \<Rightarrow> manager \<Rightarrow> manager" where
  "push_lp item manager =
     manager\<lparr>getLowPriorityQueue := queue_push (getLowPriorityQueue manager) item\<rparr>"

definition push_hp :: "json \<Rightarrow> manager \<Rightarrow> manager" where
  "push_hp item manager =
     manager\<lparr>getHighPriorityQueue := queue_push (getHighPriorityQueue manager) item\<rparr>"

text \<open>
  The loop over the managers of the binary listeners: the frame is parsed anew for
  every manager, and the first failure ends the loop.
\<close>

fun push_parsed ::
  "(string \<Rightarrow> failure + json) \<Rightarrow> (json \<Rightarrow> manager \<Rightarrow> manager) \<Rightarrow> string \<Rightarrow> manager list
    \<Rightarrow> failure + manager list" where
  "push_parsed parse push data [] = Inr []"
| "push_parsed parse push data (manager # rest) =
     (case parse data of
        Inl e \<Rightarrow> Inl e
      | Inr decodeddata \<Rightarrow>
          (case push_parsed parse push data rest of
             Inl e \<Rightarrow> Inl e
           | Inr rest' \<Rightarrow> Inr (push decodeddata manager # rest')))"

fun listen_for_lp_data ::
  "(string \<Rightarrow> failure + json) \<Rightarrow> nat \<Rightarrow> supervisor \<Rightarrow> string list
    \<Rightarrow> failure + supervisor \<times> string list" where
  "listen_for_lp_data parse 0 s inbox = Inr (s, inbox)"
| "listen_for_lp_data parse (Suc n) s inbox =
     (if continueall s then
        (if \<not> stopdata s then
           (case inbox of
              [] \<Rightarrow> Inr (s, [])
            | data # inbox' \<Rightarrow>
                (case push_parsed parse push_lp data (manager_workers s) of
                   Inl e \<Rightarrow> Inl e
                 | Inr managers \<Rightarrow>
                     listen_for_lp_data parse n (s\<lparr>manager_workers := managers\<rparr>) inbox'))
         else listen_for_lp_data parse n s inbox)
      else Inr (logger_system ''End listen_for_lp_data'' s, inbox))"

fun listen_for_hp_data ::
  "(string \<Rightarrow> failure + json) \<Rightarrow> nat \<Rightarrow> supervisor \<Rightarrow> string list
    \<Rightarrow> failure + supervisor \<times> string list" where
  "listen_for_hp_data parse 0 s inbox = Inr (s, inbox)"
| "listen_for_hp_data parse (Suc n) s inbox =
     (if continueall s then
        (if \<not> stopdata s then
           (case inbox of
              [] \<Rightarrow> Inr (s, [])
            | data # inbox' \<Rightarrow>
                (case push_parsed parse push_hp data (manager_workers s) of
                   Inl e \<Rightarrow> Inl e
                 | Inr managers \<Rightarrow>
                     listen_for_hp_data parse n (s\<lparr>manager_workers := managers\<rparr>) inbox'))
         else listen_for_hp_data parse n s inbox)
      else Inr (logger_system ''End listen_for_hp_data'' s, inbox))"

fun listen_for_lp_string :: "nat \<Rightarrow> supervisor \<Rightarrow> string list \<Rightarrow> supervisor \<times> string list" where
  "listen_for_lp_string 0 s inbox = (s, inbox)"
| "listen_for_lp_string (Suc n) s inbox =
     (if continueall s then
        (if \<not> stopdata s then
           (case inbox of
              [] \<Rightarrow> (s, [])
            | data_str # inbox' \<Rightarrow>
                listen_for_lp_string n
                  (s\<lparr>manager_workers := map (push_lp (JString data_str)) (manager_workers s)\<rparr>)
                  inbox')
         else listen_for_lp_string n s inbox)
      else (logger_system ''End listen_for_lp_string'' s, inbox))"

fun listen_for_hp_string :: "nat \<Rightarrow> supervisor \<Rightarrow> string list \<Rightarrow> supervisor \<times> string list" where
  "listen_for_hp_string 0 s inbox = (s, inbox)"
| "listen_for_hp_string (Suc n) s inbox =
     (if continueall s then
        (if \<not> stopdata s then
           (case inbox of
              [] \<Rightarrow> (s, [])
            | data_str # inbox' \<Rightarrow>
                listen_for_hp_string n
                  (s\<lparr>manager_workers := map (push_hp (JString data_str)) (manager_workers s)\<rparr>)
                  inbox')
         else listen_for_hp_string n s inbox)
      else (logger_system ''End listen_for_hp_string'' s, inbox))"

text \<open>
  The loop over the managers of the filename listeners, on the managers from position
  \<open>i\<close> on: the file is opened and read anew for every manager, and the elements
  \<open>data[0]\<close> to \<open>data[size - 1]\<close> are pushed in this order.
\<close>

definition push_all :: "(json \<Rightarrow> manager \<Rightarrow> manager) \<Rightarrow> json list \<Rightarrow> int \<Rightarrow> manager \<Rightarrow> manager" where
  "push_all push data n_read manager =
     fold (\<lambda>i m. push (data ! i) m) [0 ..< nat n_read] manager"

fun push_file ::
  "(string \<Rightarrow> string option) \<Rightarrow> (string \<Rightarrow> failure + json) \<Rightarrow> (json \<Rightarrow> manager \<Rightarrow> manager)
    \<Rightarrow> string \<Rightarrow> nat list \<Rightarrow> supervisor \<Rightarrow> supervisor" where
  "push_file files parse push filename [] s = s"
| "push_file files parse push filename (i # rest) s =
     (case open_file files parse filename s of
        ((data, n_read), s) \<Rightarrow>
          push_file files parse push filename rest
            (s\<lparr>manager_workers :=
                 (manager_workers s)[i := push_all push data n_read (manager_workers s ! i)]\<rparr>))"

fun listen_for_lp_file ::
  "(string \<Rightarrow> string option) \<Rightarrow> (string \<Rightarrow> failure + json) \<Rightarrow> nat \<Rightarrow> supervisor \<Rightarrow> string list
    \<Rightarrow> supervisor \<times> string list" where
  "listen_for_lp_file files parse 0 s inbox = (s, inbox)"
| "listen_for_lp_file files parse (Suc n) s inbox =
     (if continueall s then
        (if \<not> stopdata s then
           (case inbox of
              [] \<Rightarrow> (s, [])
            | filename # inbox' \<Rightarrow>
                listen_for_lp_file files parse n
                  (push_file files parse push_lp filename [0 ..< length (manager_workers s)] s)
                  inbox')
         else listen_for_lp_file files parse n s inbox)
      else (logger_system ''End listen_for_lp_file'' s, inbox))"

fun listen_for_hp_file ::
  "(string \<Rightarrow> string option) \<Rightarrow> (string \<Rightarrow> failure + json) \<Rightarrow> nat \<Rightarrow> supervisor \<Rightarrow> string list
    \<Rightarrow> supervisor \<times> string list" where
  "listen_for_hp_file files parse 0 s inbox = (s, inbox)"
| "listen_for_hp_file files parse (Suc n) s inbox =
     (if continueall s then
        (if \<not> stopdata s then
           (case inbox of
              [] \<Rightarrow> (s, [])
            | filename # inbox' \<Rightarrow>
                listen_for_hp_file files parse n
                  (push_file files parse push_hp filename [0 ..< length (manager_workers s)] s)
                  inbox')
         else listen_for_hp_file files parse n s inbox)
      else (logger_system ''End listen_for_hp_file'' s, inbox))"

subsection \<open>A listener among the other threads\<close>

text \<open>
  What each listener does with a frame once \<^verbatim>\<open>recv\<close> has returned it: the rest of
  the block under \<^verbatim>\<open>if (!stopdata)\<close>.
\<close>

definition lp_data_received ::
  "(string \<Rightarrow> failure + json) \<Rightarrow> string \<Rightarrow> supervisor \<Rightarrow> failure + supervisor" where
  "lp_data_received parse data s =
     (case push_parsed parse push_lp data (manager_workers s) of
        Inl e \<Rightarrow> Inl e
      | Inr managers \<Rightarrow> Inr (s\<lparr>manager_workers := managers\<rparr>))"

definition hp_data_received ::
  "(string \<Rightarrow> failure + json) \<Rightarrow> string \<Rightarrow> supervisor \<Rightarrow> failure + supervisor" where
  "hp_data_received parse data s =
     (case push_parsed parse push_hp data (manager_workers s) of
        Inl e \<Rightarrow> Inl e
      | Inr managers \<Rightarrow> Inr (s\<lparr>manager_workers := managers\<rparr>))"

definition lp_string_received :: "string \<Rightarrow> supervisor \<Rightarrow> failure + supervisor" where
  "lp_string_received data_str s =
     Inr (s\<lparr>manager_workers := map (push_lp (JString data_str)) (manager_workers s)\<rparr>)"

definition hp_string_received :: "string \<Rightarrow> supervisor \<Rightarrow> failure + supervisor" where
  "hp_string_received data_str s =
     Inr (s\<lparr>manager_workers := map (push_hp (JString data_str)) (manager_workers s)\<rparr>)"

definition lp_file_received ::
  "(string \<Rightarrow> string option) \<Rightarrow> (string \<Rightarrow> failure + json) \<Rightarrow> string \<Rightarrow> supervisor
    \<Rightarrow> failure + supervisor" where
  "lp_file_received files parse filename s =
     Inr (push_file files parse push_lp filename [0 ..< length (manager_workers s)] s)"

definition hp_file_received ::
  "(string \<Rightarrow> string option) \<Rightarrow> (string \<Rightarrow> failure + json) \<Rightarrow> string \<Rightarrow> supervisor
    \<Rightarrow> failure + supervisor" where
  "hp_file_received files parse filename s =
     Inr (push_file files parse push_hp filename [0 ..< length (manager_workers s)] s)"

text \<open>
  Where a listener thread stands: at the head of its loop, about to test
  \<^verbatim>\<open>continueall\<close> and \<^verbatim>\<open>stopdata\<close>; inside the blocking \<^verbatim>\<open>recv\<close>, both
  tests behind it; or past the end of the loop.
\<close>

datatype listener_at = At_loop_head | In_recv | Ended

text \<open>
  One step of a listener thread, for runs in which other threads write the state
  between two of its steps. All six listeners have this shape; \<open>loop\<close> is the
  name in the closing log entry and \<open>received\<close> is what the listener does with a
  frame. At the head of the loop the two flags are tested, as the state has them at
  that moment. Inside \<^verbatim>\<open>recv\<close> the thread waits while no frame is there; when one
  is there it takes it and handles it in the state of that moment, and no flag is
  tested again before the next turn of the loop.
\<close>

definition listener_step ::
  "string \<Rightarrow> (string \<Rightarrow> supervisor \<Rightarrow> failure + supervisor) \<Rightarrow> listener_at \<Rightarrow> supervisor
    \<Rightarrow> string list \<Rightarrow> failure + listener_at \<times> supervisor \<times> string list" where
  "listener_step loop received place s inbox =
     (case place of
        At_loop_head \<Rightarrow>
          (if continueall s then
             (if \<not> stopdata s then Inr (In_recv, s, inbox) else Inr (At_loop_head, s, inbox))
           else Inr (Ended, logger_system (''End '' @ loop) s, inbox))
      | In_recv \<Rightarrow>
          (case inbox of
             [] \<Rightarrow> Inr (In_recv, s, [])
           | frame # inbox' \<Rightarrow>
               (case received frame s of
                  Inl e \<Rightarrow> Inl e
                | Inr s' \<Rightarrow> Inr (At_loop_head, s', inbox')))
      | Ended \<Rightarrow> Inr (Ended, s, inbox))"

subsection \<open>The result dispatcher\<close>

text \<open>
  \<^verbatim>\<open>socket_xx_result[indexmanager]->send(frame)\<close> on one of the two socket vectors:
  a null pointer or a position outside the vector is undefined behaviour, a failing
  transport raises, otherwise the socket has one more frame.
\<close>

definition socket_send ::
  "result_socket option list \<Rightarrow> nat \<Rightarrow> frame \<Rightarrow> failure + result_socket option list" where
  "socket_send sockets indexmanager f =
     (if indexmanager < length sockets then
        (case sockets ! indexmanager of
           None \<Rightarrow> Inl (Undefined_Behaviour ''send through a null socket pointer'')
         | Some socket \<Rightarrow>
             (case zmq_error socket of
                Some w \<Rightarrow> Inl (Exception w)
              | None \<Rightarrow> Inr (sockets[indexmanager := Some (socket\<lparr>sent := sent socket @ [f]\<rparr>)])))
      else Inl (Undefined_Behaviour ''socket index out of range''))"

text \<open>
  \<^verbatim>\<open>try { ... } catch (const std::exception &e) { logger->error(prefix + e.what()); }\<close>
  around a block that ends in the state \<open>r\<close> or fails: an exception is logged in
  the state \<open>s\<close> in which the block began, undefined behaviour is not caught.
\<close>

fun caught :: "string \<Rightarrow> supervisor \<Rightarrow> failure + supervisor \<Rightarrow> failure + supervisor" where
  "caught prefix s (Inr r) = Inr r"
| "caught prefix s (Inl (Exception w)) = Inr (logger_error (prefix @ w) s)"
| "caught prefix s (Inl (Undefined_Behaviour w)) = Inl (Undefined_Behaviour w)"

text \<open>The block \<^verbatim>\<open>if (channel == 0) { ... }\<close> of \<^verbatim>\<open>send_result\<close>.\<close>

definition send_lp_result :: "manager \<Rightarrow> nat \<Rightarrow> json \<Rightarrow> supervisor \<Rightarrow> failure + supervisor" where
  "send_lp_result manager indexmanager data s =
     (if get_result_lp_socket manager = ''none'' then Inr s
      else if get_result_dataflow_type manager = ''string''
              \<or> get_result_dataflow_type manager = ''filename'' then
        caught ''ERROR: data not in string format to be sent to: '' s
          (case get_string data of
             Inl e \<Rightarrow> Inl e
           | Inr data_str \<Rightarrow>
               (case socket_send (socket_lp_result s) indexmanager (Text data_str) of
                  Inl e \<Rightarrow> Inl e
                | Inr sockets \<Rightarrow> Inr (s\<lparr>socket_lp_result := sockets\<rparr>)))
      else if get_result_dataflow_type manager = ''binary'' then
        caught ''ERROR: data not in binary format to be sent to socket_result: '' s
          (case socket_send (socket_lp_result s) indexmanager (Dump data) of
             Inl e \<Rightarrow> Inl e
           | Inr sockets \<Rightarrow> Inr (s\<lparr>socket_lp_result := sockets\<rparr>))
      else Inr s)"

text \<open>The block \<^verbatim>\<open>if (channel == 1) { ... }\<close> of \<^verbatim>\<open>send_result\<close>.\<close>

definition send_hp_result :: "manager \<Rightarrow> nat \<Rightarrow> json \<Rightarrow> supervisor \<Rightarrow> failure + supervisor" where
  "send_hp_result manager indexmanager data s =
     (if get_result_hp_socket manager = ''none'' then Inr s
      else if get_result_dataflow_type manager = ''string''
              \<or> get_result_dataflow_type manager = ''filename'' then
        caught ''ERROR: data not in string format to be sent to: '' s
          (case get_string data of
             Inl e \<Rightarrow> Inl e
           | Inr data_str \<Rightarrow>
               (case socket_send (socket_hp_result s) indexmanager (Text data_str) of
                  Inl e \<Rightarrow> Inl e
                | Inr sockets \<Rightarrow> Inr (s\<lparr>socket_hp_result := sockets\<rparr>)))
      else if get_result_dataflow_type manager = ''binary'' then
        caught ''ERROR: data not in binary format to be sent to socket_result: '' s
          (case socket_send (socket_hp_result s) indexmanager (Dump data) of
             Inl e \<Rightarrow> Inl e
           | Inr sockets \<Rightarrow> Inr (s\<lparr>socket_hp_result := sockets\<rparr>))
      else Inr s)"

text \<open>
  The body of a \<^verbatim>\<open>try\<close> block of \<^verbatim>\<open>send_result\<close>:
  \<^verbatim>\<open>data = queue->front(); queue->pop();\<close>.
\<close>

definition front_pop :: "json list \<Rightarrow> failure + json \<times> json list" where
  "front_pop queue =
     (case queue_front queue of
        Inl e \<Rightarrow> Inl e
      | Inr data \<Rightarrow>
          (case queue_pop queue of
             Inl e \<Rightarrow> Inl e
           | Inr queue' \<Rightarrow> Inr (data, queue')))"

text \<open>
  \<^verbatim>\<open>send_result(manager, indexmanager)\<close>, where \<open>manager\<close> is the manager at
  position \<open>indexmanager\<close> of \<^verbatim>\<open>manager_workers\<close>, as in the only caller.
\<close>

definition send_result :: "nat \<Rightarrow> supervisor \<Rightarrow> failure + supervisor" where
  "send_result indexmanager s =
     (let manager = manager_workers s ! indexmanager in
      if queue_size (getResultLpQueue manager) = 0 \<and> queue_size (getResultHpQueue manager) = 0
      then Inr s
      else
        (case front_pop (getResultHpQueue manager) of
           Inr (data, queue) \<Rightarrow>
             (let manager = manager\<lparr>getResultHpQueue := queue\<rparr>
              in send_hp_result manager indexmanager data
                   (s\<lparr>manager_workers := (manager_workers s)[indexmanager := manager]\<rparr>))
         | Inl (Undefined_Behaviour w) \<Rightarrow> Inl (Undefined_Behaviour w)
         | Inl (Exception w) \<Rightarrow>
             (case front_pop (getResultLpQueue manager) of
                Inr (data, queue) \<Rightarrow>
                  (let manager = manager\<lparr>getResultLpQueue := queue\<rparr>
                   in send_lp_result manager indexmanager data
                        (s\<lparr>manager_workers := (manager_workers s)[indexmanager := manager]\<rparr>))
              | Inl (Undefined_Behaviour w) \<Rightarrow> Inl (Undefined_Behaviour w)
              | Inl (Exception w) \<Rightarrow> Inr s)))"

text \<open>
  One pass of the loop of \<^verbatim>\<open>listen_for_result\<close> over the managers, by position.
\<close>

fun send_results :: "nat list \<Rightarrow> supervisor \<Rightarrow> failure + supervisor" where
  "send_results [] s = Inr s"
| "send_results (indexmanager # rest) s =
     (case send_result indexmanager s of
        Inl e \<Rightarrow> Inl e
      | Inr s \<Rightarrow> send_results rest s)"

definition listen_for_result_pass :: "supervisor \<Rightarrow> failure + supervisor" where
  "listen_for_result_pass s = send_results [0 ..< length (manager_workers s)] s"

section \<open>Predicates of the properties\<close>

text \<open>
  A call of \<^verbatim>\<open>processData\<close> returns a result whose \<open>priority\<close> member is the
  given priority.
\<close>

definition returns_with_priority :: "failure + json \<Rightarrow> int \<Rightarrow> bool" where
  "returns_with_priority r priority =
     (case r of Inl e \<Rightarrow> False | Inr result \<Rightarrow> field_of result ''priority'' = Some (JInt priority))"

text \<open>
  The records of a file, in the words of the description of \<^verbatim>\<open>open_file\<close>: one
  per non-empty line, in the order of the file, up to the first line that does not
  parse.
\<close>

definition records_of :: "(string \<Rightarrow> failure + json) \<Rightarrow> string list \<Rightarrow> json list" where
  "records_of parse lines =
     map projr (takeWhile (\<lambda>r. \<not> isl r) (map parse (filter (\<lambda>line. line \<noteq> []) lines)))"

text \<open>
  The records that \<^verbatim>\<open>open_file\<close> returns for a file name, and the entries it
  writes to the log.
\<close>

definition file_records :: "(string \<Rightarrow> string option) \<Rightarrow> (string \<Rightarrow> failure + json) \<Rightarrow> string \<Rightarrow> json list" where
  "file_records files parse filename =
     (case files filename of None \<Rightarrow> [] | Some content \<Rightarrow> records_of parse (getlines [] content))"

definition file_errors ::
  "(string \<Rightarrow> string option) \<Rightarrow> (string \<Rightarrow> failure + json) \<Rightarrow> string \<Rightarrow> (log_level \<times> string) list" where
  "file_errors files parse filename =
     (case files filename of
        None \<Rightarrow> [(Error, ''Unable to open file: '' @ filename)]
      | Some content \<Rightarrow>
          (case snd (snd (read_lines parse (getlines [] content) [] 0)) of
             None \<Rightarrow> []
           | Some e \<Rightarrow> [(Error, ''Error while reading file: '' @ what e)]))"

text \<open>
  A run of a listener that began in the state \<open>s\<close> with the frames \<open>inbox\<close>
  waiting has received nothing and has changed no manager, so no queue.
\<close>

definition ingress_parked ::
  "supervisor \<Rightarrow> string list \<Rightarrow> supervisor \<times> string list \<Rightarrow> bool" where
  "ingress_parked s inbox r \<longleftrightarrow> manager_workers (fst r) = manager_workers s \<and> snd r = inbox"

text \<open>
  The draining of one manager in the words of the description of the dispatcher: one
  item leaves, from the high-priority result queue when that is not empty, otherwise
  from the low-priority result queue; nothing leaves when both are empty.
\<close>

definition drain_one :: "manager \<Rightarrow> manager" where
  "drain_one m =
     (if getResultHpQueue m \<noteq> [] then m\<lparr>getResultHpQueue := tl (getResultHpQueue m)\<rparr>
      else if getResultLpQueue m \<noteq> [] then m\<lparr>getResultLpQueue := tl (getResultLpQueue m)\<rparr>
      else m)"

text \<open>
  What \<^verbatim>\<open>setup_result_channel\<close> leaves behind for a socket type of \<open>pushpull\<close>
  or \<open>pubsub\<close>: a socket in the slot of every manager and priority whose result
  endpoint is not \<open>none\<close>.
\<close>

definition slot_ready :: "string \<Rightarrow> result_socket option list \<Rightarrow> nat \<Rightarrow> bool" where
  "slot_ready endpoint sockets i \<longleftrightarrow>
     endpoint = ''none'' \<or> (i < length sockets \<and> sockets ! i \<noteq> None)"

definition result_channels_ready :: "supervisor \<Rightarrow> bool" where
  "result_channels_ready s \<longleftrightarrow>
     (\<forall>i < length (manager_workers s).
        slot_ready (get_result_lp_socket (manager_workers s ! i)) (socket_lp_result s) i
        \<and> slot_ready (get_result_hp_socket (manager_workers s ! i)) (socket_hp_result s) i)"



text \<open>The status in which \<^verbatim>\<open>process_command\<close> has returned, when it has.\<close>

definition status_after :: "(failure + supervisor) option \<Rightarrow> string option" where
  "status_after r = (case r of Some (Inr s) \<Rightarrow> Some (status s) | _ \<Rightarrow> None)"







section \<open>Concrete inputs\<close>

text \<open>A decoder that finds no record in any input.\<close>

definition no_record :: "string \<Rightarrow> failure + string option" where
  "no_record binary_data = Inr None"

text \<open>
  A file system with one file of five lines, of which the second is empty, the fourth
  does not parse and the last has no newline; and a parser that knows three numbers.
\<close>

definition demo_files :: "string \<Rightarrow> string option" where
  "demo_files filename =
     (if filename = ''records'' then Some [CHR ''1'', CHR 0x0A, CHR 0x0A, CHR ''2'', CHR 0x0A, CHR ''x'', CHR 0x0A, CHR ''3'']
      else None)"

definition demo_parse :: "string \<Rightarrow> failure + json" where
  "demo_parse line =
     (if line = ''1'' then Inr (JInt 1)
      else if line = ''2'' then Inr (JInt 2)
      else if line = ''3'' then Inr (JInt 3)
      else Inl (Exception ''[json.exception.parse_error.101] parse error''))"

text \<open>
  A supervisor in the shipped shape: one manager, a low-priority result socket, no
  high-priority result endpoint.
\<close>

definition demo_manager :: manager where
  "demo_manager =
     \<lparr>get_globalname = ''WorkerManager-Generic'',
      get_result_socket_type = ''pushpull'',
      get_result_dataflow_type = ''string'',
      get_result_lp_socket = ''tcp://localhost:5563'',
      get_result_hp_socket = ''none'',
      getLowPriorityQueue = [],
      getHighPriorityQueue = [],
      getResultLpQueue = [],
      getResultHpQueue = [],
      manager_processdata = 1,
      manager_stopdata = False,
      stop_calls = [],
      worker_configurations = [],
      heartbeat_targets = []\<rparr>"

definition demo_supervisor :: supervisor where
  "demo_supervisor =
     \<lparr>name = ''RTADP1'',
      fullname = ''RTADP1'',
      globalname = ''Supervisor-RTADP1'',
      dataflowtype = ''filename'',
      status = ''Processing'',
      continueall = True,
      stopdata = False,
      processdata = 0,
      manager_workers = [demo_manager],
      socket_lp_result = [Some \<lparr>sent = [], zmq_error = None\<rparr>],
      socket_hp_result = [None],
      socket_monitoring = [],
      logger = [],
      clock = 1700000000\<rparr>"

text \<open>The same supervisor with results waiting in both result queues of its manager.\<close>

definition demo_results :: supervisor where
  "demo_results =
     demo_supervisor\<lparr>manager_workers :=
       [demo_manager\<lparr>getResultLpQueue := [JString ''l1''],
                     getResultHpQueue := [JString ''h1'', JString ''h2'']\<rparr>]\<rparr>"

text \<open>Other threads that do nothing while the supervisor sleeps.\<close>

definition no_progress :: "supervisor \<Rightarrow> manager \<Rightarrow> manager" where
  "no_progress s manager = manager"

text \<open>A command envelope of type 0 for every supervisor, with the given subtype.\<close>

definition command_envelope :: "string \<Rightarrow> json" where
  "command_envelope subtype =
     JObject [(''header'', JObject
       [(''type'', JInt 0), (''subtype'', JString subtype), (''time'', JFloat 0),
        (''pidsource'', JString ''operator''), (''pidtarget'', JString ''*''),
        (''priority'', JString ''Low'')])]"




text \<open>The supervisor in string mode; and with the ingress stopped and a late frame in.\<close>

definition demo_string :: supervisor where
  "demo_string = demo_supervisor\<lparr>dataflowtype := ''string''\<rparr>"

definition demo_string_late :: supervisor where
  "demo_string_late =
     demo_string\<lparr>stopdata := True,
       manager_workers :=
         [demo_manager\<lparr>getLowPriorityQueue := [JString ''late''], manager_stopdata := True\<rparr>]\<rparr>"



section \<open>Properties\<close>

subsection \<open>Worker1\<close>

text \<open>
  C9, as stated: for every input item and every priority, \<^verbatim>\<open>processData\<close> returns
  a result whose priority member is the priority argument. It fails for an item that
  is not a JSON string: in string mode the item \<open>5\<close> makes
  \<^verbatim>\<open>data.get<std::string>()\<close> throw, and no result is returned.
\<close>

theorem processData_counterexample:
  "\<not> returns_with_priority (processData no_record ''string'' (JInt 5) 1) 1"
  by (simp add: processData_def returns_with_priority_def)

text \<open>
  C9, amended. For an item that is a JSON string: in string mode the result is the
  object with the members \<open>data\<close>, the input string, and \<open>priority\<close>, the
  priority argument; in filename mode the same with the member \<open>filename\<close>; in
  binary mode a result with that priority is returned whenever the Avro decoding of
  the string succeeds. In every mode and for every item, a result that is returned
  has the priority argument as its \<open>priority\<close> member. For an item that is not
  a JSON string, each of the three modes ends in an exception and returns no result.
\<close>

theorem processData_priority:
  "processData decode_name ''string'' (JString str) priority
     = Inr (JObject [(''data'', JString str), (''priority'', JInt priority)])
   \<and> processData decode_name ''filename'' (JString str) priority
     = Inr (JObject [(''filename'', JString str), (''priority'', JInt priority)])
   \<and> (\<forall>name. decode_name str = Inr name \<longrightarrow>
         returns_with_priority (processData decode_name ''binary'' (JString str) priority) priority)
   \<and> (\<forall>result. processData decode_name dataflow_type data priority = Inr result \<longrightarrow>
         field_of result ''priority'' = Some (JInt priority))
   \<and> ((dataflow_type = ''binary'' \<or> dataflow_type = ''filename'' \<or> dataflow_type = ''string'')
        \<and> (\<forall>s. data \<noteq> JString s) \<longrightarrow>
         (\<exists>e. processData decode_name dataflow_type data priority = Inl e))"
proof (intro conjI allI impI)
  show "processData decode_name ''string'' (JString str) priority
     = Inr (JObject [(''data'', JString str), (''priority'', JInt priority)])"
    by (simp add: processData_def)
  show "processData decode_name ''filename'' (JString str) priority
     = Inr (JObject [(''filename'', JString str), (''priority'', JInt priority)])"
    by (simp add: processData_def)
next
  fix name assume "decode_name str = Inr name"
  then show "returns_with_priority (processData decode_name ''binary'' (JString str) priority) priority"
    by (cases name) (simp_all add: processData_def returns_with_priority_def)
next
  fix result assume "processData decode_name dataflow_type data priority = Inr result"
  then show "field_of result ''priority'' = Some (JInt priority)"
    by (auto simp: processData_def split: if_splits sum.splits option.splits)
next
  assume a: "(dataflow_type = ''binary'' \<or> dataflow_type = ''filename'' \<or> dataflow_type = ''string'')
        \<and> (\<forall>s. data \<noteq> JString s)"
  then obtain e where "get_string data = Inl e"
    by (cases data) auto
  with a show "\<exists>e. processData decode_name dataflow_type data priority = Inl e"
    by (auto simp: processData_def)
qed

theorem processData_priority_witness:
  "no_record ''abc'' = Inr None
   \<and> returns_with_priority (processData no_record ''binary'' (JString ''abc'') 7) 7
   \<and> processData no_record ''string'' (JString ''abc'') 7
       = Inr (JObject [(''data'', JString ''abc''), (''priority'', JInt 7)])
   \<and> (\<exists>e. processData no_record ''filename'' (JInt 5) 7 = Inl e)"
  using processData_priority [of no_record "''abc''" 7 "''filename''" "JInt 5"]
  by (simp add: no_record_def)

subsection \<open>Monitoring emissions\<close>

text \<open>
  C8: the frame that \<^verbatim>\<open>send_info\<close>, \<^verbatim>\<open>send_alarm\<close> and \<^verbatim>\<open>send_log\<close> put on
  the monitoring socket is the envelope whose header has type 5, 2 and 4 with the
  subtype \<open>info\<close>, \<open>alarm\<close> and \<open>log\<close>, the reading of the wall clock
  as \<open>time\<close>, the given \<open>pidsource\<close>, the \<open>pidtarget\<close> \<open>*\<close> and
  the given priority, and whose body holds the given level, code and message and
  nothing else.
\<close>

theorem monitoring_emissions:
  "socket_monitoring (send_info level message pidsource code priority s)
     = socket_monitoring s @
       [Dump (JObject
          [(''header'', JObject
             [(''type'', JInt 5), (''subtype'', JString ''info''),
              (''time'', JFloat (real_of_int (clock s))),
              (''pidsource'', JString pidsource), (''pidtarget'', JString ''*''),
              (''priority'', JString priority)]),
           (''body'', JObject
             [(''level'', JInt level), (''code'', JInt code), (''message'', JString message)])])]
   \<and> socket_monitoring (send_alarm level message pidsource code priority s)
     = socket_monitoring s @
       [Dump (JObject
          [(''header'', JObject
             [(''type'', JInt 2), (''subtype'', JString ''alarm''),
              (''time'', JFloat (real_of_int (clock s))),
              (''pidsource'', JString pidsource), (''pidtarget'', JString ''*''),
              (''priority'', JString priority)]),
           (''body'', JObject
             [(''level'', JInt level), (''code'', JInt code), (''message'', JString message)])])]
   \<and> socket_monitoring (send_log level message pidsource code priority s)
     = socket_monitoring s @
       [Dump (JObject
          [(''header'', JObject
             [(''type'', JInt 4), (''subtype'', JString ''log''),
              (''time'', JFloat (real_of_int (clock s))),
              (''pidsource'', JString pidsource), (''pidtarget'', JString ''*''),
              (''priority'', JString priority)]),
           (''body'', JObject
             [(''level'', JInt level), (''code'', JInt code), (''message'', JString message)])])]"
  by (simp add: send_info_def send_alarm_def send_log_def monitoring_message_def
        object2_def)

subsection \<open>Reading a file of records\<close>

lemma records_of_Nil [simp]: "records_of parse [] = []"
  by (simp add: records_of_def)

lemma records_of_Cons:
  "records_of parse (line # rest) =
     (if line = [] then records_of parse rest
      else case parse line of Inl e \<Rightarrow> [] | Inr j \<Rightarrow> j # records_of parse rest)"
  by (simp add: records_of_def split: sum.splits)

lemma read_lines_data:
  "fst (read_lines parse lines data n) = data @ records_of parse lines"
  by (induction lines arbitrary: data n) (simp_all add: records_of_Cons split: sum.splits)

lemma read_lines_size:
  "fst (snd (read_lines parse lines data n)) = n + int (length (records_of parse lines))"
  by (induction lines arbitrary: data n) (simp_all add: records_of_Cons split: sum.splits)

lemma open_file_result:
  "fst (open_file files parse filename s) =
     (case files filename of
        None \<Rightarrow> ([], 0)
      | Some content \<Rightarrow>
          (records_of parse (getlines [] content),
           int (length (records_of parse (getlines [] content)))))"
proof (cases "files filename")
  case None
  then show ?thesis by (simp add: open_file_def)
next
  case (Some content)
  obtain data n e where r: "read_lines parse (getlines [] content) [] 0 = (data, n, e)"
    by (cases "read_lines parse (getlines [] content) [] 0") auto
  from r have "data = records_of parse (getlines [] content)"
    using read_lines_data [of parse "getlines [] content" "[]" 0] by simp
  moreover from r have "n = int (length (records_of parse (getlines [] content)))"
    using read_lines_size [of parse "getlines [] content" "[]" 0] by simp
  ultimately show ?thesis
    using Some r by (cases e) (simp_all add: open_file_def)
qed

text \<open>
  C10: \<^verbatim>\<open>open_file\<close> returns a pair \<open>(data, size)\<close> in which \<open>size\<close> is
  the number of elements of \<open>data\<close>; a file that cannot be opened gives the empty
  vector and 0; a file that can be opened gives one element per parsed non-empty
  line, in file order (reading stops at the first line that does not parse).
\<close>

theorem open_file_size:
  "snd (fst (open_file files parse filename s)) = int (length (fst (fst (open_file files parse filename s))))
   \<and> (files filename = None \<longrightarrow> fst (open_file files parse filename s) = ([], 0))
   \<and> (\<forall>content. files filename = Some content \<longrightarrow>
         fst (fst (open_file files parse filename s)) = records_of parse (getlines [] content))"
  by (simp add: open_file_result split: option.splits)

theorem open_file_size_witness:
  "demo_files ''records'' = Some [CHR ''1'', CHR 0x0A, CHR 0x0A, CHR ''2'', CHR 0x0A, CHR ''x'', CHR 0x0A, CHR ''3'']
   \<and> fst (open_file demo_files demo_parse ''records'' demo_supervisor) = ([JInt 1, JInt 2], 2)
   \<and> demo_files ''missing'' = None
   \<and> fst (open_file demo_files demo_parse ''missing'' demo_supervisor) = ([], 0)"
  using open_file_size [of demo_files demo_parse "''records''" demo_supervisor]
        open_file_size [of demo_files demo_parse "''missing''" demo_supervisor]
  by (simp add: demo_files_def demo_parse_def records_of_def prod_eq_iff)

subsection \<open>Ingress listeners\<close>

lemma listen_for_lp_data_parked:
  "stopdata s \<Longrightarrow>
     listen_for_lp_data parse n s inbox
       = Inr (if continueall s \<or> n = 0 then s else logger_system ''End listen_for_lp_data'' s, inbox)"
  by (induction n) simp_all

lemma listen_for_hp_data_parked:
  "stopdata s \<Longrightarrow>
     listen_for_hp_data parse n s inbox
       = Inr (if continueall s \<or> n = 0 then s else logger_system ''End listen_for_hp_data'' s, inbox)"
  by (induction n) simp_all

lemma listen_for_lp_string_parked:
  "stopdata s \<Longrightarrow>
     listen_for_lp_string n s inbox
       = (if continueall s \<or> n = 0 then s else logger_system ''End listen_for_lp_string'' s, inbox)"
  by (induction n) simp_all

lemma listen_for_hp_string_parked:
  "stopdata s \<Longrightarrow>
     listen_for_hp_string n s inbox
       = (if continueall s \<or> n = 0 then s else logger_system ''End listen_for_hp_string'' s, inbox)"
  by (induction n) simp_all

lemma listen_for_lp_file_parked:
  "stopdata s \<Longrightarrow>
     listen_for_lp_file files parse n s inbox
       = (if continueall s \<or> n = 0 then s else logger_system ''End listen_for_lp_file'' s, inbox)"
  by (induction n) simp_all

lemma listen_for_hp_file_parked:
  "stopdata s \<Longrightarrow>
     listen_for_hp_file files parse n s inbox
       = (if continueall s \<or> n = 0 then s else logger_system ''End listen_for_hp_file'' s, inbox)"
  by (induction n) simp_all

lemma logger_system_managers [simp]:
  "manager_workers (logger_system msg s) = manager_workers s"
  by (simp add: logger_system_def)

text \<open>
  The step of a listener inside \<^verbatim>\<open>recv\<close> handles a frame as the loop does in the
  iteration that receives it.
\<close>

lemma listeners_receive:
  assumes "continueall s" and "\<not> stopdata s"
  shows "listen_for_lp_data parse (Suc 0) s (frame # inbox)
           = (case lp_data_received parse frame s of Inl e \<Rightarrow> Inl e | Inr s' \<Rightarrow> Inr (s', inbox))"
    and "listen_for_hp_data parse (Suc 0) s (frame # inbox)
           = (case hp_data_received parse frame s of Inl e \<Rightarrow> Inl e | Inr s' \<Rightarrow> Inr (s', inbox))"
    and "lp_string_received frame s = Inr (fst (listen_for_lp_string (Suc 0) s (frame # inbox)))"
    and "hp_string_received frame s = Inr (fst (listen_for_hp_string (Suc 0) s (frame # inbox)))"
    and "lp_file_received files parse frame s
           = Inr (fst (listen_for_lp_file files parse (Suc 0) s (frame # inbox)))"
    and "hp_file_received files parse frame s
           = Inr (fst (listen_for_hp_file files parse (Suc 0) s (frame # inbox)))"
  using assms
  by (simp_all add: lp_data_received_def hp_data_received_def lp_string_received_def
        hp_string_received_def lp_file_received_def hp_file_received_def split: sum.splits)

text \<open>
  C5, as stated: while \<^verbatim>\<open>stopdata\<close> is true, no listener receives and no item is
  added to an input queue, whatever is sent. It fails for a listener that is inside
  \<^verbatim>\<open>recv\<close> when the flag is set. The low-priority string listener tests the flag
  while it is false and enters \<^verbatim>\<open>recv\<close>; \<^verbatim>\<open>command_stopdata\<close> sets the flag;
  the frame \<open>late\<close> is sent; \<^verbatim>\<open>recv\<close> returns it and the listener pushes it,
  with \<^verbatim>\<open>stopdata\<close> true, into the low-priority input queue that was empty.
\<close>

theorem stopdata_counterexample:
  "\<not> stopdata demo_string
   \<and> listener_step ''listen_for_lp_string'' lp_string_received At_loop_head demo_string []
       = Inr (In_recv, demo_string, [])
   \<and> stopdata (command_stopdata demo_string)
   \<and> map getLowPriorityQueue (manager_workers (command_stopdata demo_string)) = [[]]
   \<and> listener_step ''listen_for_lp_string'' lp_string_received In_recv
         (command_stopdata demo_string) [''late'']
       = Inr (At_loop_head, demo_string_late, [])
   \<and> stopdata demo_string_late
   \<and> map getLowPriorityQueue (manager_workers demo_string_late) = [[JString ''late'']]"
  by (simp add: listener_step_def lp_string_received_def command_stopdata_def demo_string_def
        demo_string_late_def demo_supervisor_def demo_manager_def set_stopdata_def push_lp_def
        queue_push_def)

text \<open>
  C5, amended. While \<^verbatim>\<open>stopdata\<close> is true, no listener loop begins a receive:
  any number of iterations of each of the six loops (binary, string, filename; low
  and high priority) that run with the flag set take no frame from the socket and
  change no queue of a manager, whatever frames are waiting; and a listener thread
  that reaches the head of its loop while the flag is set stays there (or ends, when
  \<^verbatim>\<open>continueall\<close> is false). The flag is tested only before \<^verbatim>\<open>recv\<close>: a
  listener that is inside \<^verbatim>\<open>recv\<close> takes the next frame and handles it whatever
  the flag has become, so a string listener pushes that frame into the input queue
  of its priority of every manager.
\<close>

theorem stopdata_parks_ingress:
  assumes "stopdata s"
  shows "(\<exists>r. listen_for_lp_data parse n s inbox = Inr r \<and> ingress_parked s inbox r)
       \<and> (\<exists>r. listen_for_hp_data parse n s inbox = Inr r \<and> ingress_parked s inbox r)
       \<and> ingress_parked s inbox (listen_for_lp_string n s inbox)
       \<and> ingress_parked s inbox (listen_for_hp_string n s inbox)
       \<and> ingress_parked s inbox (listen_for_lp_file files parse n s inbox)
       \<and> ingress_parked s inbox (listen_for_hp_file files parse n s inbox)
       \<and> listener_step loop received At_loop_head s inbox
           = Inr (if continueall s then (At_loop_head, s, inbox)
                  else (Ended, logger_system (''End '' @ loop) s, inbox))
       \<and> listener_step loop received In_recv s (frame # inbox)
           = (case received frame s of
                Inl e \<Rightarrow> Inl e
              | Inr s' \<Rightarrow> Inr (At_loop_head, s', inbox))
       \<and> listener_step ''listen_for_lp_string'' lp_string_received In_recv s (frame # inbox)
           = Inr (At_loop_head,
                  s\<lparr>manager_workers := map (push_lp (JString frame)) (manager_workers s)\<rparr>, inbox)
       \<and> listener_step ''listen_for_hp_string'' hp_string_received In_recv s (frame # inbox)
           = Inr (At_loop_head,
                  s\<lparr>manager_workers := map (push_hp (JString frame)) (manager_workers s)\<rparr>, inbox)"
proof (intro conjI)
  show "\<exists>r. listen_for_lp_data parse n s inbox = Inr r \<and> ingress_parked s inbox r"
    using assms by (simp add: listen_for_lp_data_parked ingress_parked_def)
  show "\<exists>r. listen_for_hp_data parse n s inbox = Inr r \<and> ingress_parked s inbox r"
    using assms by (simp add: listen_for_hp_data_parked ingress_parked_def)
  show "ingress_parked s inbox (listen_for_lp_string n s inbox)"
    using assms by (simp add: listen_for_lp_string_parked ingress_parked_def)
  show "ingress_parked s inbox (listen_for_hp_string n s inbox)"
    using assms by (simp add: listen_for_hp_string_parked ingress_parked_def)
  show "ingress_parked s inbox (listen_for_lp_file files parse n s inbox)"
    using assms by (simp add: listen_for_lp_file_parked ingress_parked_def)
  show "ingress_parked s inbox (listen_for_hp_file files parse n s inbox)"
    using assms by (simp add: listen_for_hp_file_parked ingress_parked_def)
  show "listener_step loop received At_loop_head s inbox
           = Inr (if continueall s then (At_loop_head, s, inbox)
                  else (Ended, logger_system (''End '' @ loop) s, inbox))"
    using assms by (simp add: listener_step_def)
  show "listener_step loop received In_recv s (frame # inbox)
           = (case received frame s of
                Inl e \<Rightarrow> Inl e
              | Inr s' \<Rightarrow> Inr (At_loop_head, s', inbox))"
    by (simp add: listener_step_def)
  show "listener_step ''listen_for_lp_string'' lp_string_received In_recv s (frame # inbox)
           = Inr (At_loop_head,
                  s\<lparr>manager_workers := map (push_lp (JString frame)) (manager_workers s)\<rparr>, inbox)"
    by (simp add: listener_step_def lp_string_received_def)
  show "listener_step ''listen_for_hp_string'' hp_string_received In_recv s (frame # inbox)
           = Inr (At_loop_head,
                  s\<lparr>manager_workers := map (push_hp (JString frame)) (manager_workers s)\<rparr>, inbox)"
    by (simp add: listener_step_def hp_string_received_def)
qed

theorem stopdata_parks_ingress_witness:
  "stopdata (command_stopdata demo_supervisor)
   \<and> ingress_parked (command_stopdata demo_supervisor) [''hello'', ''world'']
         (listen_for_lp_string 5 (command_stopdata demo_supervisor) [''hello'', ''world''])
   \<and> ingress_parked (command_stopdata demo_supervisor) [''records'']
         (listen_for_hp_file demo_files demo_parse 5 (command_stopdata demo_supervisor) [''records''])
   \<and> listener_step ''listen_for_lp_string'' lp_string_received At_loop_head
         (command_stopdata demo_supervisor) [''hello'', ''world'']
       = Inr (At_loop_head, command_stopdata demo_supervisor, [''hello'', ''world''])"
proof -
  have stopped: "stopdata (command_stopdata demo_supervisor)"
    by (simp add: command_stopdata_def)
  have running: "continueall (command_stopdata demo_supervisor)"
    by (simp add: command_stopdata_def demo_supervisor_def)
  have "ingress_parked (command_stopdata demo_supervisor) [''hello'', ''world'']
         (listen_for_lp_string 5 (command_stopdata demo_supervisor) [''hello'', ''world''])"
    by (rule stopdata_parks_ingress [OF stopped, THEN conjunct2, THEN conjunct2, THEN conjunct1])
  moreover have "ingress_parked (command_stopdata demo_supervisor) [''records'']
         (listen_for_hp_file demo_files demo_parse 5 (command_stopdata demo_supervisor) [''records''])"
    by (rule stopdata_parks_ingress [OF stopped, THEN conjunct2, THEN conjunct2, THEN conjunct2,
          THEN conjunct2, THEN conjunct2, THEN conjunct1])
  moreover have "listener_step ''listen_for_lp_string'' lp_string_received At_loop_head
         (command_stopdata demo_supervisor) [''hello'', ''world'']
       = Inr (At_loop_head, command_stopdata demo_supervisor, [''hello'', ''world''])"
    using stopdata_parks_ingress [OF stopped, THEN conjunct2, THEN conjunct2, THEN conjunct2,
          THEN conjunct2, THEN conjunct2, THEN conjunct2, THEN conjunct1,
          of "''listen_for_lp_string''" lp_string_received "[''hello'', ''world'']"]
    by (simp only: running if_True)
  ultimately show ?thesis
    using stopped by (intro conjI)
qed

subsection \<open>Filename ingress\<close>

lemma open_file_fst:
  "fst (open_file files parse filename s)
     = (file_records files parse filename, int (length (file_records files parse filename)))"
  by (simp add: open_file_result file_records_def split: option.splits)

lemma open_file_managers [simp]:
  "manager_workers (snd (open_file files parse filename s)) = manager_workers s"
  by (simp add: open_file_def logger_error_def split: option.splits prod.splits)

lemma push_all_lp:
  "k \<le> length data \<Longrightarrow>
     fold (\<lambda>i m. push_lp (data ! i) m) [0 ..< k] manager
       = manager\<lparr>getLowPriorityQueue := getLowPriorityQueue manager @ take k data\<rparr>"
  by (induction k) (simp_all add: push_lp_def queue_push_def take_Suc_conv_app_nth)

lemma push_all_hp:
  "k \<le> length data \<Longrightarrow>
     fold (\<lambda>i m. push_hp (data ! i) m) [0 ..< k] manager
       = manager\<lparr>getHighPriorityQueue := getHighPriorityQueue manager @ take k data\<rparr>"
  by (induction k) (simp_all add: push_hp_def queue_push_def take_Suc_conv_app_nth)

lemma update_each:
  "n \<le> length ms \<Longrightarrow>
     fold (\<lambda>i ms. ms[i := f (ms ! i)]) [0 ..< n] ms = map f (take n ms) @ drop n ms"
proof (induction n)
  case 0
  then show ?case by simp
next
  case (Suc n)
  then have n: "n < length ms" by simp
  have "(map f (take n ms) @ drop n ms)[n := f ((map f (take n ms) @ drop n ms) ! n)]
          = map f (take n ms) @ (drop n ms)[0 := f (ms ! n)]"
    using n by (simp add: list_update_append nth_append)
  also have "\<dots> = map f (take n ms) @ f (ms ! n) # drop (Suc n) ms"
    using n by (simp add: Cons_nth_drop_Suc [symmetric])
  also have "\<dots> = map f (take (Suc n) ms) @ drop (Suc n) ms"
    using n by (simp add: take_Suc_conv_app_nth)
  finally show ?case
    using Suc by simp
qed

lemma push_file_managers:
  "manager_workers (push_file files parse push filename indices s)
     = fold (\<lambda>i ms. ms[i := push_all push (file_records files parse filename)
                               (int (length (file_records files parse filename))) (ms ! i)])
         indices (manager_workers s)"
proof (induction indices arbitrary: s)
  case Nil
  then show ?case by simp
next
  case (Cons i rest)
  obtain data n s1 where o: "open_file files parse filename s = ((data, n), s1)"
    by (cases "open_file files parse filename s") auto
  from o have d: "data = file_records files parse filename" "n = int (length data)"
    using open_file_fst [of files parse filename s] by simp_all
  from o have m: "manager_workers s1 = manager_workers s"
    using open_file_managers [of files parse filename s] by simp
  show ?case
    using o d m by (simp add: Cons.IH)
qed

lemma push_file_all:
  "manager_workers (push_file files parse push filename [0 ..< length (manager_workers s)] s)
     = map (push_all push (file_records files parse filename)
              (int (length (file_records files parse filename)))) (manager_workers s)"
  by (simp add: push_file_managers update_each)

lemma open_file_logger:
  "logger (snd (open_file files parse filename s)) = logger s @ file_errors files parse filename"
  by (simp add: open_file_def file_errors_def logger_error_def split: option.splits prod.splits)

lemma read_lines_failure:
  "snd (snd (read_lines parse lines data n)) = None
     \<longleftrightarrow> (\<forall>line \<in> set lines. line \<noteq> [] \<longrightarrow> \<not> isl (parse line))"
  by (induction lines arbitrary: data n) (auto split: sum.splits)

lemma push_file_logger:
  "logger (push_file files parse push filename indices s)
     = logger s @ concat (replicate (length indices) (file_errors files parse filename))"
proof (induction indices arbitrary: s)
  case Nil
  then show ?case by simp
next
  case (Cons i rest)
  obtain data n s1 where o: "open_file files parse filename s = ((data, n), s1)"
    by (cases "open_file files parse filename s") auto
  from o have "logger s1 = logger s @ file_errors files parse filename"
    using open_file_logger [of files parse filename s] by simp
  then show ?case
    using o by (simp add: Cons.IH)
qed

lemma push_all_lp_records:
  "push_all push_lp data (int (length data)) manager
     = manager\<lparr>getLowPriorityQueue := getLowPriorityQueue manager @ data\<rparr>"
  by (simp add: push_all_def push_all_lp)

lemma push_all_hp_records:
  "push_all push_hp data (int (length data)) manager
     = manager\<lparr>getHighPriorityQueue := getHighPriorityQueue manager @ data\<rparr>"
  by (simp add: push_all_def push_all_hp)

lemma file_errors_parse:
  assumes "files filename = Some content"
    and "line \<in> set (getlines [] content)" and "line \<noteq> []" and "isl (parse line)"
  shows "\<exists>e. file_errors files parse filename = [(Error, ''Error while reading file: '' @ what e)]"
proof -
  have "snd (snd (read_lines parse (getlines [] content) [] 0)) \<noteq> None"
    using assms(2-4) read_lines_failure [of parse "getlines [] content" "[]" 0] by blast
  then show ?thesis
    using assms(1) by (auto simp: file_errors_def)
qed

text \<open>
  C3, as stated: when a line of the file does not parse, no item of the file reaches
  a queue. It fails: the file \<open>records\<close> holds the lines \<open>1\<close>, an empty
  line, \<open>2\<close>, \<open>x\<close> and \<open>3\<close>; the line \<open>x\<close> does not parse, and the
  low-priority listener still pushes the records of the two lines before it.
\<close>

theorem filename_ingress_counterexample:
  "demo_files ''records'' = Some [CHR ''1'', CHR 0x0A, CHR 0x0A, CHR ''2'', CHR 0x0A, CHR ''x'', CHR 0x0A, CHR ''3'']
   \<and> ''x'' \<in> set (getlines [] [CHR ''1'', CHR 0x0A, CHR 0x0A, CHR ''2'', CHR 0x0A, CHR ''x'', CHR 0x0A, CHR ''3''])
   \<and> isl (demo_parse ''x'')
   \<and> map getLowPriorityQueue (manager_workers demo_supervisor) = [[]]
   \<and> map getLowPriorityQueue
        (manager_workers (fst (listen_for_lp_file demo_files demo_parse (Suc 0) demo_supervisor [''records''])))
       = [[JInt 1, JInt 2]]"
proof -
  have "continueall demo_supervisor" "\<not> stopdata demo_supervisor"
    by (simp_all add: demo_supervisor_def)
  then have "manager_workers (fst (listen_for_lp_file demo_files demo_parse (Suc 0) demo_supervisor [''records'']))
      = map (\<lambda>m. m\<lparr>getLowPriorityQueue := getLowPriorityQueue m @ file_records demo_files demo_parse ''records''\<rparr>)
          (manager_workers demo_supervisor)"
    by (simp add: push_file_all push_all_lp_records)
  moreover have "file_records demo_files demo_parse ''records'' = [JInt 1, JInt 2]"
    by (simp add: file_records_def records_of_def demo_files_def demo_parse_def)
  ultimately show ?thesis
    by (simp add: demo_files_def demo_parse_def demo_supervisor_def demo_manager_def)
qed

text \<open>
  C3, amended. An iteration of a filename listener that receives a file name gives
  every manager, at the back of its input queue of that priority, the records of the
  file: none when the file cannot be opened, and otherwise the records of the
  non-empty lines before the first line that does not parse. It writes to the log,
  once per manager, what went wrong: that the file could not be opened, or the error
  of the line that did not parse.
\<close>

theorem filename_ingress_partial:
  assumes "continueall s" and "\<not> stopdata s"
  shows "manager_workers (fst (listen_for_lp_file files parse (Suc 0) s (filename # inbox)))
           = map (\<lambda>m. m\<lparr>getLowPriorityQueue := getLowPriorityQueue m @ file_records files parse filename\<rparr>)
               (manager_workers s)
       \<and> manager_workers (fst (listen_for_hp_file files parse (Suc 0) s (filename # inbox)))
           = map (\<lambda>m. m\<lparr>getHighPriorityQueue := getHighPriorityQueue m @ file_records files parse filename\<rparr>)
               (manager_workers s)
       \<and> logger (fst (listen_for_lp_file files parse (Suc 0) s (filename # inbox)))
           = logger s @ concat (replicate (length (manager_workers s)) (file_errors files parse filename))
       \<and> logger (fst (listen_for_hp_file files parse (Suc 0) s (filename # inbox)))
           = logger s @ concat (replicate (length (manager_workers s)) (file_errors files parse filename))
       \<and> (files filename = None \<longrightarrow>
            file_records files parse filename = []
            \<and> file_errors files parse filename = [(Error, ''Unable to open file: '' @ filename)])
       \<and> (\<forall>content. files filename = Some content \<longrightarrow>
            file_records files parse filename = records_of parse (getlines [] content)
            \<and> ((\<exists>line \<in> set (getlines [] content). line \<noteq> [] \<and> isl (parse line)) \<longrightarrow>
                 (\<exists>e. file_errors files parse filename
                        = [(Error, ''Error while reading file: '' @ what e)])))"
proof (intro conjI allI impI)
  show "manager_workers (fst (listen_for_lp_file files parse (Suc 0) s (filename # inbox)))
           = map (\<lambda>m. m\<lparr>getLowPriorityQueue := getLowPriorityQueue m @ file_records files parse filename\<rparr>)
               (manager_workers s)"
    using assms by (simp add: push_file_all push_all_lp_records)
  show "manager_workers (fst (listen_for_hp_file files parse (Suc 0) s (filename # inbox)))
           = map (\<lambda>m. m\<lparr>getHighPriorityQueue := getHighPriorityQueue m @ file_records files parse filename\<rparr>)
               (manager_workers s)"
    using assms by (simp add: push_file_all push_all_hp_records)
  show "logger (fst (listen_for_lp_file files parse (Suc 0) s (filename # inbox)))
           = logger s @ concat (replicate (length (manager_workers s)) (file_errors files parse filename))"
    using assms by (simp add: push_file_logger)
  show "logger (fst (listen_for_hp_file files parse (Suc 0) s (filename # inbox)))
           = logger s @ concat (replicate (length (manager_workers s)) (file_errors files parse filename))"
    using assms by (simp add: push_file_logger)
next
  assume "files filename = None"
  then show "file_records files parse filename = []"
    and "file_errors files parse filename = [(Error, ''Unable to open file: '' @ filename)]"
    by (simp_all add: file_records_def file_errors_def)
next
  fix content assume "files filename = Some content"
  then show "file_records files parse filename = records_of parse (getlines [] content)"
    by (simp add: file_records_def)
next
  fix content
  assume "files filename = Some content"
    and "\<exists>line \<in> set (getlines [] content). line \<noteq> [] \<and> isl (parse line)"
  then show "\<exists>e. file_errors files parse filename = [(Error, ''Error while reading file: '' @ what e)]"
    using file_errors_parse by blast
qed

theorem filename_ingress_partial_witness:
  "continueall demo_supervisor \<and> \<not> stopdata demo_supervisor
   \<and> demo_files ''missing'' = None
   \<and> manager_workers (fst (listen_for_lp_file demo_files demo_parse (Suc 0) demo_supervisor [''missing'']))
       = manager_workers demo_supervisor
   \<and> logger (fst (listen_for_lp_file demo_files demo_parse (Suc 0) demo_supervisor [''missing'']))
       = [(Error, ''Unable to open file: missing'')]
   \<and> map getHighPriorityQueue
        (manager_workers (fst (listen_for_hp_file demo_files demo_parse (Suc 0) demo_supervisor [''records''])))
       = [[JInt 1, JInt 2]]"
  using filename_ingress_partial [of demo_supervisor demo_files demo_parse "''missing''" "[]"]
        filename_ingress_partial [of demo_supervisor demo_files demo_parse "''records''" "[]"]
  by (simp add: demo_supervisor_def demo_manager_def demo_files_def demo_parse_def
        file_records_def records_of_def)

subsection \<open>The result dispatcher\<close>

lemma front_pop_Nil [simp]: "front_pop [] = Inl (Exception ''empty queue'')"
  by (simp add: front_pop_def)

lemma front_pop_Cons [simp]: "front_pop (data # queue) = Inr (data, queue)"
  by (simp add: front_pop_def)

lemma socket_send_Inr:
  assumes "socket_send sockets i f = Inr sockets'"
  shows "length sockets' = length sockets"
    and "j \<noteq> i \<Longrightarrow> sockets' ! j = sockets ! j"
    and "sockets ! j \<noteq> None \<Longrightarrow> sockets' ! j \<noteq> None"
  using assms
  by (auto simp: socket_send_def nth_list_update split: if_splits option.splits)

lemma socket_send_ready:
  "i < length sockets \<Longrightarrow> sockets ! i \<noteq> None \<Longrightarrow>
     socket_send sockets i f \<noteq> Inl (Undefined_Behaviour w)"
  by (auto simp: socket_send_def split: option.splits)

lemma caught_Inr:
  "caught prefix s r = Inr s' \<Longrightarrow> r = Inr s' \<or> (\<exists>w. r = Inl (Exception w) \<and> s' = logger_error (prefix @ w) s)"
  by (cases "(prefix, s, r)" rule: caught.cases) auto

lemma caught_Inl:
  "caught prefix s r = Inl e \<Longrightarrow> \<exists>w. e = Undefined_Behaviour w \<and> r = Inl (Undefined_Behaviour w)"
  by (cases "(prefix, s, r)" rule: caught.cases) auto

lemma logger_error_fields [simp]:
  "manager_workers (logger_error msg s) = manager_workers s"
  "socket_lp_result (logger_error msg s) = socket_lp_result s"
  "socket_hp_result (logger_error msg s) = socket_hp_result s"
  by (simp_all add: logger_error_def)

lemma get_string_no_ub [simp]: "get_string data \<noteq> Inl (Undefined_Behaviour w)"
  by (cases data) simp_all

lemma send_hp_result_Inr:
  assumes "send_hp_result manager i data s = Inr s'"
  shows "manager_workers s' = manager_workers s"
    and "socket_lp_result s' = socket_lp_result s"
    and "length (socket_hp_result s') = length (socket_hp_result s)"
    and "j \<noteq> i \<Longrightarrow> socket_hp_result s' ! j = socket_hp_result s ! j"
    and "socket_hp_result s ! j \<noteq> None \<Longrightarrow> socket_hp_result s' ! j \<noteq> None"
  using assms
  by (auto simp: send_hp_result_def split: if_splits sum.splits
           dest!: caught_Inr dest: socket_send_Inr)

lemma send_lp_result_Inr:
  assumes "send_lp_result manager i data s = Inr s'"
  shows "manager_workers s' = manager_workers s"
    and "socket_hp_result s' = socket_hp_result s"
    and "length (socket_lp_result s') = length (socket_lp_result s)"
    and "j \<noteq> i \<Longrightarrow> socket_lp_result s' ! j = socket_lp_result s ! j"
    and "socket_lp_result s ! j \<noteq> None \<Longrightarrow> socket_lp_result s' ! j \<noteq> None"
  using assms
  by (auto simp: send_lp_result_def split: if_splits sum.splits
           dest!: caught_Inr dest: socket_send_Inr)

lemma send_hp_result_returns:
  assumes "slot_ready (get_result_hp_socket manager) (socket_hp_result s) i"
  shows "\<exists>s'. send_hp_result manager i data s = Inr s'"
proof (cases "send_hp_result manager i data s")
  case (Inl e)
  then have "get_result_hp_socket manager \<noteq> ''none''"
    by (auto simp: send_hp_result_def)
  with assms have "i < length (socket_hp_result s)" "socket_hp_result s ! i \<noteq> None"
    by (simp_all add: slot_ready_def)
  with Inl show ?thesis
    by (auto simp: send_hp_result_def split: if_splits sum.splits
             dest!: caught_Inl dest: socket_send_ready)
next
  case (Inr s')
  then show ?thesis by blast
qed

lemma send_lp_result_returns:
  assumes "slot_ready (get_result_lp_socket manager) (socket_lp_result s) i"
  shows "\<exists>s'. send_lp_result manager i data s = Inr s'"
proof (cases "send_lp_result manager i data s")
  case (Inl e)
  then have "get_result_lp_socket manager \<noteq> ''none''"
    by (auto simp: send_lp_result_def)
  with assms have "i < length (socket_lp_result s)" "socket_lp_result s ! i \<noteq> None"
    by (simp_all add: slot_ready_def)
  with Inl show ?thesis
    by (auto simp: send_lp_result_def split: if_splits sum.splits
             dest!: caught_Inl dest: socket_send_ready)
next
  case (Inr s')
  then show ?thesis by blast
qed


lemma send_result_cases:
  "send_result i s =
     (case getResultHpQueue (manager_workers s ! i) of
        data # queue \<Rightarrow>
          send_hp_result ((manager_workers s ! i)\<lparr>getResultHpQueue := queue\<rparr>) i data
            (s\<lparr>manager_workers :=
                 (manager_workers s)[i := (manager_workers s ! i)\<lparr>getResultHpQueue := queue\<rparr>]\<rparr>)
      | [] \<Rightarrow>
          (case getResultLpQueue (manager_workers s ! i) of
             data # queue \<Rightarrow>
               send_lp_result ((manager_workers s ! i)\<lparr>getResultLpQueue := queue\<rparr>) i data
                 (s\<lparr>manager_workers :=
                      (manager_workers s)[i := (manager_workers s ! i)\<lparr>getResultLpQueue := queue\<rparr>]\<rparr>)
           | [] \<Rightarrow> Inr s))"
  by (simp add: send_result_def queue_size_def Let_def split: list.splits)

lemma drain_one_endpoints [simp]:
  "get_result_lp_socket (drain_one m) = get_result_lp_socket m"
  "get_result_hp_socket (drain_one m) = get_result_hp_socket m"
  by (simp_all add: drain_one_def)

lemma send_result_managers:
  assumes "send_result i s = Inr s'"
  shows "manager_workers s' = (manager_workers s)[i := drain_one (manager_workers s ! i)]"
proof (cases "getResultHpQueue (manager_workers s ! i)")
  case (Cons data queue)
  with assms show ?thesis
    by (auto simp: send_result_cases drain_one_def dest: send_hp_result_Inr(1))
next
  case Nil
  note hp = Nil
  show ?thesis
  proof (cases "getResultLpQueue (manager_workers s ! i)")
    case Nil
    with hp assms show ?thesis
      by (simp add: send_result_cases drain_one_def)
  next
    case (Cons data queue)
    with hp assms show ?thesis
      by (auto simp: send_result_cases drain_one_def dest: send_lp_result_Inr(1))
  qed
qed

lemma send_result_sockets:
  assumes "send_result i s = Inr s'"
  shows "length (socket_lp_result s') = length (socket_lp_result s)"
    and "length (socket_hp_result s') = length (socket_hp_result s)"
    and "j \<noteq> i \<Longrightarrow> socket_lp_result s' ! j = socket_lp_result s ! j"
    and "j \<noteq> i \<Longrightarrow> socket_hp_result s' ! j = socket_hp_result s ! j"
  using assms
  by (auto simp: send_result_cases split: list.splits
           dest: send_hp_result_Inr send_lp_result_Inr)

lemma send_result_keeps_sockets:
  assumes "send_result i s = Inr s'"
  shows "socket_lp_result s ! j \<noteq> None \<Longrightarrow> socket_lp_result s' ! j \<noteq> None"
    and "socket_hp_result s ! j \<noteq> None \<Longrightarrow> socket_hp_result s' ! j \<noteq> None"
proof -
  assume a: "socket_lp_result s ! j \<noteq> None"
  show "socket_lp_result s' ! j \<noteq> None"
  proof (cases "getResultHpQueue (manager_workers s ! i)")
    case (Cons data queue)
    with assms a show ?thesis
      using send_hp_result_Inr(2) [of _ i data _ s'] by (auto simp: send_result_cases)
  next
    case Nil
    with assms a show ?thesis
      using send_lp_result_Inr(5) [of _ i _ _ s' j]
      by (auto simp: send_result_cases split: list.splits)
  qed
next
  assume a: "socket_hp_result s ! j \<noteq> None"
  show "socket_hp_result s' ! j \<noteq> None"
  proof (cases "getResultHpQueue (manager_workers s ! i)")
    case (Cons data queue)
    with assms a show ?thesis
      using send_hp_result_Inr(5) [of _ i data _ s' j] by (auto simp: send_result_cases)
  next
    case Nil
    with assms a show ?thesis
      using send_lp_result_Inr(2) [of _ i _ _ s']
      by (auto simp: send_result_cases split: list.splits)
  qed
qed

lemma send_result_idle:
  "getResultLpQueue (manager_workers s ! i) = [] \<Longrightarrow>
   getResultHpQueue (manager_workers s ! i) = [] \<Longrightarrow> send_result i s = Inr s"
  by (simp add: send_result_cases)

lemma send_result_ready:
  assumes "send_result i s = Inr s'" and "result_channels_ready s"
  shows "result_channels_ready s'"
  unfolding result_channels_ready_def
proof (intro allI impI)
  fix j assume "j < length (manager_workers s')"
  then have j: "j < length (manager_workers s)"
    using send_result_managers [OF assms(1)] by simp
  have ends: "get_result_lp_socket (manager_workers s' ! j) = get_result_lp_socket (manager_workers s ! j)"
    "get_result_hp_socket (manager_workers s' ! j) = get_result_hp_socket (manager_workers s ! j)"
    using send_result_managers [OF assms(1)] j by (cases "j = i"; simp)+
  from assms(2) j have
    "slot_ready (get_result_lp_socket (manager_workers s ! j)) (socket_lp_result s) j"
    "slot_ready (get_result_hp_socket (manager_workers s ! j)) (socket_hp_result s) j"
    by (simp_all add: result_channels_ready_def)
  then show "slot_ready (get_result_lp_socket (manager_workers s' ! j)) (socket_lp_result s') j
       \<and> slot_ready (get_result_hp_socket (manager_workers s' ! j)) (socket_hp_result s') j"
    using ends send_result_sockets(1,2) [OF assms(1)] send_result_keeps_sockets [OF assms(1), of j]
    by (auto simp: slot_ready_def)
qed

lemma send_result_returns:
  assumes "result_channels_ready s" and "i < length (manager_workers s)"
  shows "\<exists>s'. send_result i s = Inr s'"
proof -
  from assms have
    lp: "slot_ready (get_result_lp_socket (manager_workers s ! i)) (socket_lp_result s) i" and
    hp: "slot_ready (get_result_hp_socket (manager_workers s ! i)) (socket_hp_result s) i"
    by (simp_all add: result_channels_ready_def)
  show ?thesis
  proof (cases "getResultHpQueue (manager_workers s ! i)")
    case (Cons data queue)
    then show ?thesis
      using send_hp_result_returns
              [of "(manager_workers s ! i)\<lparr>getResultHpQueue := queue\<rparr>"
                  "s\<lparr>manager_workers :=
                       (manager_workers s)[i := (manager_workers s ! i)\<lparr>getResultHpQueue := queue\<rparr>]\<rparr>"
                  i data] hp
      by (simp add: send_result_cases)
  next
    case Nil
    then show ?thesis
      using send_lp_result_returns
              [of "(manager_workers s ! i)\<lparr>getResultLpQueue := queue\<rparr>"
                  "s\<lparr>manager_workers :=
                       (manager_workers s)[i := (manager_workers s ! i)\<lparr>getResultLpQueue := queue\<rparr>]\<rparr>"
                  i data for data queue] lp
      by (simp add: send_result_cases split: list.splits)
  qed
qed

lemma send_results_managers:
  "send_results indices s = Inr s' \<Longrightarrow>
     manager_workers s'
       = fold (\<lambda>i ms. ms[i := drain_one (ms ! i)]) indices (manager_workers s)"
proof (induction indices arbitrary: s)
  case Nil
  then show ?case by simp
next
  case (Cons i rest)
  then obtain s1 where s1: "send_result i s = Inr s1" "send_results rest s1 = Inr s'"
    by (auto split: sum.splits)
  show ?case
    using Cons.IH [OF s1(2)] send_result_managers [OF s1(1)] by simp
qed

lemma send_results_returns:
  "result_channels_ready s \<Longrightarrow> \<forall>i \<in> set indices. i < length (manager_workers s) \<Longrightarrow>
     \<exists>s'. send_results indices s = Inr s'"
proof (induction indices arbitrary: s)
  case Nil
  then show ?case by simp
next
  case (Cons i rest)
  then obtain s1 where s1: "send_result i s = Inr s1"
    using send_result_returns [of s i] by auto
  have "result_channels_ready s1"
    using send_result_ready [OF s1 Cons.prems(1)] .
  moreover have "\<forall>j \<in> set rest. j < length (manager_workers s1)"
    using Cons.prems(2) send_result_managers [OF s1] by simp
  ultimately show ?case
    using Cons.IH [of s1] s1 by simp
qed

lemma send_results_idle:
  assumes "send_results indices s = Inr s'"
    and "getResultLpQueue (manager_workers s ! i) = []"
    and "getResultHpQueue (manager_workers s ! i) = []"
    and "i < length (manager_workers s)"
  shows "socket_lp_result s' ! i = socket_lp_result s ! i
       \<and> socket_hp_result s' ! i = socket_hp_result s ! i"
  using assms
proof (induction indices arbitrary: s)
  case Nil
  then show ?case by simp
next
  case (Cons j rest)
  then obtain s1 where s1: "send_result j s = Inr s1" "send_results rest s1 = Inr s'"
    by (auto split: sum.splits)
  have same: "socket_lp_result s1 ! i = socket_lp_result s ! i
       \<and> socket_hp_result s1 ! i = socket_hp_result s ! i
       \<and> manager_workers s1 ! i = manager_workers s ! i
       \<and> length (manager_workers s1) = length (manager_workers s)"
  proof (cases "j = i")
    case True
    then have "s1 = s"
      using s1(1) send_result_idle [OF Cons.prems(2,3)] by simp
    then show ?thesis by simp
  next
    case False
    then show ?thesis
      using send_result_sockets(3,4) [OF s1(1), of i] send_result_managers [OF s1(1)]
      by simp
  qed
  then show ?case
    using Cons.IH [OF s1(2)] Cons.prems by simp
qed

text \<open>
  C4: in a pass of the dispatcher over the managers, every manager loses exactly one
  result, from its high-priority result queue when that is not empty, otherwise from
  its low-priority result queue; a manager with both result queues empty loses
  nothing, and nothing is sent on its two sockets. The pass runs to its end whenever
  the result channels are set up.
\<close>

theorem result_pass_hp_first:
  "(result_channels_ready s \<longrightarrow> (\<exists>s'. listen_for_result_pass s = Inr s'))
   \<and> (\<forall>s'. listen_for_result_pass s = Inr s' \<longrightarrow>
         manager_workers s' = map drain_one (manager_workers s)
         \<and> (\<forall>i < length (manager_workers s).
               getResultLpQueue (manager_workers s ! i) = []
               \<and> getResultHpQueue (manager_workers s ! i) = [] \<longrightarrow>
               socket_lp_result s' ! i = socket_lp_result s ! i
               \<and> socket_hp_result s' ! i = socket_hp_result s ! i))"
proof (intro conjI allI impI)
  assume "result_channels_ready s"
  then show "\<exists>s'. listen_for_result_pass s = Inr s'"
    unfolding listen_for_result_pass_def by (rule send_results_returns) simp
next
  fix s' assume "listen_for_result_pass s = Inr s'"
  then show "manager_workers s' = map drain_one (manager_workers s)"
    unfolding listen_for_result_pass_def
    by (simp add: send_results_managers update_each)
next
  fix s' i
  assume "listen_for_result_pass s = Inr s'" and "i < length (manager_workers s)"
    and "getResultLpQueue (manager_workers s ! i) = [] \<and> getResultHpQueue (manager_workers s ! i) = []"
  then show "socket_lp_result s' ! i = socket_lp_result s ! i"
    and "socket_hp_result s' ! i = socket_hp_result s ! i"
    unfolding listen_for_result_pass_def
    using send_results_idle [of "[0 ..< length (manager_workers s)]" s s' i] by simp_all
qed

lemma demo_results_ready: "result_channels_ready demo_results"
  by (simp add: result_channels_ready_def slot_ready_def demo_results_def demo_supervisor_def
        demo_manager_def)

theorem result_pass_hp_first_witness:
  "result_channels_ready demo_results
   \<and> (\<exists>s'. listen_for_result_pass demo_results = Inr s'
          \<and> map getResultHpQueue (manager_workers s') = [[JString ''h2'']]
          \<and> map getResultLpQueue (manager_workers s') = [[JString ''l1'']])"
proof -
  from result_pass_hp_first [of demo_results, THEN conjunct1, THEN mp, OF demo_results_ready]
  obtain s' where s': "listen_for_result_pass demo_results = Inr s'" ..
  from result_pass_hp_first [of demo_results, THEN conjunct2, THEN spec, THEN mp, OF s', THEN conjunct1]
  have "manager_workers s' = map drain_one (manager_workers demo_results)" .
  then have "map getResultHpQueue (manager_workers s') = [[JString ''h2'']]"
    and "map getResultLpQueue (manager_workers s') = [[JString ''l1'']]"
    by (simp_all add: demo_results_def demo_supervisor_def demo_manager_def drain_one_def)
  with s' have "\<exists>s'. listen_for_result_pass demo_results = Inr s'
          \<and> map getResultHpQueue (manager_workers s') = [[JString ''h2'']]
          \<and> map getResultLpQueue (manager_workers s') = [[JString ''l1'']]"
    by (intro exI [of _ s'] conjI)
  with demo_results_ready show ?thesis ..
qed

text \<open>
  C6: when the item that \<^verbatim>\<open>send_result\<close> takes belongs to a priority whose result
  endpoint is \<open>none\<close>, the call returns in the state in which the item has left
  its result queue and nothing else has changed: no socket has a new frame and the
  log has no new entry.
\<close>

theorem none_endpoint_discards:
  assumes "indexmanager < length (manager_workers s)"
    and "manager = manager_workers s ! indexmanager"
  shows "(getResultHpQueue manager = data # queue \<and> get_result_hp_socket manager = ''none'' \<longrightarrow>
            send_result indexmanager s
              = Inr (s\<lparr>manager_workers :=
                        (manager_workers s)[indexmanager := manager\<lparr>getResultHpQueue := queue\<rparr>]\<rparr>))
       \<and> (getResultHpQueue manager = [] \<and> getResultLpQueue manager = data # queue
            \<and> get_result_lp_socket manager = ''none'' \<longrightarrow>
            send_result indexmanager s
              = Inr (s\<lparr>manager_workers :=
                        (manager_workers s)[indexmanager := manager\<lparr>getResultLpQueue := queue\<rparr>]\<rparr>))"
  using assms
  by (simp add: send_result_cases send_hp_result_def send_lp_result_def)

theorem none_endpoint_discards_witness:
  "0 < length (manager_workers demo_results)
   \<and> get_result_hp_socket (manager_workers demo_results ! 0) = ''none''
   \<and> getResultHpQueue (manager_workers demo_results ! 0) = [JString ''h1'', JString ''h2'']
   \<and> send_result 0 demo_results
       = Inr (demo_results\<lparr>manager_workers :=
                [(manager_workers demo_results ! 0)\<lparr>getResultHpQueue := [JString ''h2'']\<rparr>]\<rparr>)
   \<and> socket_lp_result demo_results = [Some \<lparr>sent = [], zmq_error = None\<rparr>]
   \<and> send_result 0
         (demo_supervisor\<lparr>manager_workers :=
            [demo_manager\<lparr>get_result_lp_socket := ''none'', getResultLpQueue := [JString ''l1'']\<rparr>]\<rparr>)
       = Inr (demo_supervisor\<lparr>manager_workers := [demo_manager\<lparr>get_result_lp_socket := ''none''\<rparr>]\<rparr>)"
  using none_endpoint_discards
          [of 0 demo_results "manager_workers demo_results ! 0" "JString ''h1''" "[JString ''h2'']"]
        none_endpoint_discards
          [of 0 "demo_supervisor\<lparr>manager_workers :=
                   [demo_manager\<lparr>get_result_lp_socket := ''none'',
                                 getResultLpQueue := [JString ''l1'']\<rparr>]\<rparr>"
              "demo_manager\<lparr>get_result_lp_socket := ''none'', getResultLpQueue := [JString ''l1'']\<rparr>"
              "JString ''l1''" "[]"]
  by (simp add: demo_results_def demo_supervisor_def demo_manager_def)

subsection \<open>The command handler\<close>

lemma read_command_envelope:
  "read_header (command_envelope subtype) = Inr (0, subtype, ''*'', ''operator'')"
  by (simp add: read_header_def header_int_def header_string_def header_field_def
        command_envelope_def narrow_int_def)


lemma command_shutdown_status:
  "status (command_shutdown s) = ''Waiting'' \<and> \<not> continueall (command_shutdown s)"
  by (simp add: command_shutdown_def stop_all_def command_stop_def command_stopprocessing_def
        command_stopdata_def send_info_def logger_system_def Let_def)





text \<open>
  C1 says that the supervisor is in the state \<open>Shutdown\<close> once it has processed a
  \<open>shutdown\<close> command. \<^verbatim>\<open>command_shutdown\<close> writes that status and calls
  \<^verbatim>\<open>stop_all\<close>, which calls \<^verbatim>\<open>command_stop\<close> and so
  \<^verbatim>\<open>command_stopprocessing\<close>, which writes \<open>Waiting\<close>: the command leaves the
  supervisor in the status \<open>Waiting\<close>.
\<close>

theorem shutdown_leaves_waiting:
  "status_after (process_command no_progress demo_supervisor (command_envelope ''shutdown''))
     = Some ''Waiting''"
  by (simp add: process_command_def read_command_envelope dispatch_command_def status_after_def
        command_shutdown_status)

subsection \<open>The cleaned shutdown\<close>











lemma command_stopdata_length:
  "length (manager_workers (command_stopdata s)) = length (manager_workers s)"
  by (simp add: command_stopdata_def)












end
